theory Spec2Isabelle
  imports Complex_Main
begin

section \<open>Host-language values\<close>

text \<open>
  A JavaScript number is a finite value, \<open>NaN\<close> or one of the two infinities.  The finite
  values are taken from the rationals; the codec only asks whether a number is integral and
  compares numbers, so no rounding is involved.
\<close>

datatype number = Finite rat | NaN | PosInfinity | NegInfinity

type_synonym bytes = "nat list"

text \<open>
  The dynamic values the codec inspects with \<open>typeof\<close>, \<open>Array.isArray\<close>,
  \<open>Buffer.isBuffer\<close> and \<open>instanceof\<close>.  A \<open>Map\<close> and a \<open>Set\<close> list their content in
  insertion order; an ordinary object lists its own enumerable properties in the order of
  \<open>Object.entries\<close>.  The string of a symbol or a function stands for its identity.
\<close>

datatype jsvalue =
    JUndefined
  | JNull
  | JBoolean bool
  | JNumber number
  | JBigInt int
  | JString string
  | JSymbol string
  | JFunction string
  | JBuffer bytes
  | JArray "jsvalue list"
  | JMap "(jsvalue \<times> jsvalue) list"
  | JSet "jsvalue list"
  | JObject "(string \<times> jsvalue) list"

fun typeof :: "jsvalue \<Rightarrow> string" where
  "typeof JUndefined = ''undefined''"
| "typeof JNull = ''object''"
| "typeof (JBoolean b) = ''boolean''"
| "typeof (JNumber n) = ''number''"
| "typeof (JBigInt i) = ''bigint''"
| "typeof (JString s) = ''string''"
| "typeof (JSymbol d) = ''symbol''"
| "typeof (JFunction f) = ''function''"
| "typeof (JBuffer b) = ''object''"
| "typeof (JArray xs) = ''object''"
| "typeof (JMap es) = ''object''"
| "typeof (JSet xs) = ''object''"
| "typeof (JObject ps) = ''object''"

fun Number_isInteger :: "number \<Rightarrow> bool" where
  "Number_isInteger (Finite r) = (of_int \<lfloor>r\<rfloor> = r)"
| "Number_isInteger NaN = False"
| "Number_isInteger PosInfinity = False"
| "Number_isInteger NegInfinity = False"

text \<open>The conversion \<open>Boolean(value)\<close>.\<close>

fun js_Boolean :: "jsvalue \<Rightarrow> bool" where
  "js_Boolean JUndefined = False"
| "js_Boolean JNull = False"
| "js_Boolean (JBoolean b) = b"
| "js_Boolean (JNumber n) = (n \<noteq> Finite 0 \<and> n \<noteq> NaN)"
| "js_Boolean (JBigInt i) = (i \<noteq> 0)"
| "js_Boolean (JString s) = (s \<noteq> [])"
| "js_Boolean (JSymbol d) = True"
| "js_Boolean (JFunction f) = True"
| "js_Boolean (JBuffer b) = True"
| "js_Boolean (JArray xs) = True"
| "js_Boolean (JMap es) = True"
| "js_Boolean (JSet xs) = True"
| "js_Boolean (JObject ps) = True"

text \<open>\<open>String.prototype.startsWith\<close> and \<open>String.prototype.includes\<close>.\<close>

fun startsWith :: "string \<Rightarrow> string \<Rightarrow> bool" where
  "startsWith s [] = True"
| "startsWith [] (p # ps) = False"
| "startsWith (c # cs) (p # ps) = (c = p \<and> startsWith cs ps)"

fun str_includes :: "string \<Rightarrow> string \<Rightarrow> bool" where
  "str_includes [] p = (p = [])"
| "str_includes (c # cs) p = (startsWith (c # cs) p \<or> str_includes cs p)"

subsection \<open>Keyed collections\<close>

text \<open>
  \<open>Map\<close> and \<open>Set\<close> compare keys with SameValueZero: primitives by value, objects by
  reference.  The objects the decoder puts into a collection are created by the decoder
  itself, one per wire value, so two of them are never the same reference.
\<close>

fun is_primitive :: "jsvalue \<Rightarrow> bool" where
  "is_primitive JUndefined = True"
| "is_primitive JNull = True"
| "is_primitive (JBoolean b) = True"
| "is_primitive (JNumber n) = True"
| "is_primitive (JBigInt i) = True"
| "is_primitive (JString s) = True"
| "is_primitive (JSymbol d) = True"
| "is_primitive (JFunction f) = False"
| "is_primitive (JBuffer b) = False"
| "is_primitive (JArray xs) = False"
| "is_primitive (JMap es) = False"
| "is_primitive (JSet xs) = False"
| "is_primitive (JObject ps) = False"









function show_nat :: "nat \<Rightarrow> string" where
  "show_nat n =
     (if n < 10 then [char_of (48 + n)]
      else show_nat (n div 10) @ [char_of (48 + n mod 10)])"
  by pat_completeness auto
termination
  by (relation "measure id") auto

definition indexed :: "jsvalue list \<Rightarrow> (jsvalue \<times> jsvalue) list" where
  "indexed xs = map (\<lambda>(i, x). (JString (show_nat i), x)) (enumerate 0 xs)"

section \<open>Wire values\<close>

text \<open>
  The tagged union \<open>xdr.ScVal\<close> of the Stellar SDK.  A constructor of the union stores the
  payload it is given, and the accessor of the same arm returns it.  The payload of a wide
  integer is whatever \<open>ScInt\<close> produced for it; the payload of an address is the parsed
  address.  The union has the arms void, bool, error, u32, i32, u64, i64, timepoint,
  duration, u128, i128, u256, i256, bytes, string, symbol, vec, map, address, contract
  instance, ledger-key contract instance and ledger-key nonce; the three the codec never
  names are collected under \<open>ScvOther\<close> with the name of their tag.  There is no
  floating-point arm.
\<close>

datatype scval =
    ScvVoid
  | ScvBool bool
  | ScvU32 number
  | ScvI32 number
  | ScvU64 int
  | ScvI64 int
  | ScvU128 int
  | ScvI128 int
  | ScvU256 int
  | ScvI256 int
  | ScvBytes bytes
  | ScvString string
  | ScvSymbol jsvalue
  | ScvAddress string
  | ScvVec "scval list"
  | ScvMap "(scval \<times> scval) list"
  | ScvContractInstance jsvalue
  | ScvLedgerKeyNonce jsvalue
  | ScvError jsvalue
  | ScvOther string

datatype ScValType =
    scvVoid | scvBool | scvU32 | scvI32 | scvU64 | scvI64 | scvU128 | scvI128
  | scvU256 | scvI256 | scvBytes | scvString | scvSymbol | scvAddress
  | scvVec | scvMap | scvContractInstance | scvLedgerKeyNonce | scvError | scvOther string

fun switch :: "scval \<Rightarrow> ScValType" where
  "switch ScvVoid = scvVoid"
| "switch (ScvBool b) = scvBool"
| "switch (ScvU32 n) = scvU32"
| "switch (ScvI32 n) = scvI32"
| "switch (ScvU64 p) = scvU64"
| "switch (ScvI64 p) = scvI64"
| "switch (ScvU128 p) = scvU128"
| "switch (ScvI128 p) = scvI128"
| "switch (ScvU256 p) = scvU256"
| "switch (ScvI256 p) = scvI256"
| "switch (ScvBytes b) = scvBytes"
| "switch (ScvString s) = scvString"
| "switch (ScvSymbol s) = scvSymbol"
| "switch (ScvAddress a) = scvAddress"
| "switch (ScvVec xs) = scvVec"
| "switch (ScvMap es) = scvMap"
| "switch (ScvContractInstance x) = scvContractInstance"
| "switch (ScvLedgerKeyNonce x) = scvLedgerKeyNonce"
| "switch (ScvError x) = scvError"
| "switch (ScvOther name) = scvOther name"

text \<open>The type hints of \<open>contract-types.ts\<close>.\<close>

datatype ScType =
    ty_void | ty_bool | ty_u32 | ty_i32 | ty_u64 | ty_i64 | ty_u128 | ty_i128
  | ty_u256 | ty_i256 | ty_f32 | ty_f64 | ty_bytes | ty_string | ty_symbol | ty_address
  | ty_option | ty_result | ty_vec | ty_map | ty_set | ty_tuple

section \<open>Errors and the external collaborators\<close>

text \<open>
  \<open>Error m\<close> is an exception this code raises with \<open>throw new Error(m)\<close>;
  \<open>HostError m\<close> is an exception with message \<open>m\<close> raised inside the runtime or the
  Stellar SDK.
\<close>

datatype error = Error string | HostError string

text \<open>
  The codec names members that the SDK does not have: the accessors \<open>bool()\<close> and
  \<open>symbol()\<close> of a wire value (the SDK calls them \<open>b()\<close> and \<open>sym()\<close>), the tags
  \<open>xdr.ScValType.scvF32\<close> and \<open>scvF64\<close> and those after them in \<open>fromScVal\<close>, the
  constructors \<open>xdr.ScVal.scvF32\<close> and \<open>scvF64\<close>, and the classes \<open>xdr.Float\<close> and
  \<open>xdr.Double\<close>.  Such a member is \<open>undefined\<close>; calling it raises a \<open>TypeError\<close>.
\<close>

definition not_a_function :: "string \<Rightarrow> error + 'a" where
  "not_a_function member = Inl (HostError (member @ '' is not a function''))"

definition not_a_constructor :: "string \<Rightarrow> error + 'a" where
  "not_a_constructor member = Inl (HostError (member @ '' is not a constructor''))"

text \<open>
  The runtime coercions and the SDK classes the codec calls are parameters of the model.
  Each returns \<open>Inl m\<close> when the call throws with message \<open>m\<close>.
  \<^item> \<open>js_Number\<close>, \<open>js_String\<close>: the conversions \<open>Number(value)\<close>, \<open>String(value)\<close>;
  \<^item> \<open>Buffer_from\<close>: \<open>Buffer.from(value)\<close>;
  \<^item> \<open>ScInt_toU64\<close> and its five siblings: \<open>new ScInt(value).toU64()\<close>, ...;
  \<^item> \<open>ScInt_toBigInt\<close>: \<open>new ScInt(payload).toBigInt()\<close>;
  \<^item> \<open>Address_new\<close>: \<open>new Address(value).toScVal()\<close>, the payload of the address arm;
  \<^item> \<open>Address_toString\<close>: \<open>Address.fromScVal(scVal).toString()\<close>;
  \<^item> \<open>call_toScVal\<close>: the method call \<open>value.toScVal()\<close> on a value that is not a string.
\<close>

record host =
  js_Number :: "jsvalue \<Rightarrow> string + number"
  js_String :: "jsvalue \<Rightarrow> string + string"
  Buffer_from :: "jsvalue \<Rightarrow> string + bytes"
  ScInt_toU64 :: "jsvalue \<Rightarrow> string + int"
  ScInt_toI64 :: "jsvalue \<Rightarrow> string + int"
  ScInt_toU128 :: "jsvalue \<Rightarrow> string + int"
  ScInt_toI128 :: "jsvalue \<Rightarrow> string + int"
  ScInt_toU256 :: "jsvalue \<Rightarrow> string + int"
  ScInt_toI256 :: "jsvalue \<Rightarrow> string + int"
  ScInt_toBigInt :: "int \<Rightarrow> string + int"
  Address_new :: "string \<Rightarrow> string + string"
  Address_toString :: "string \<Rightarrow> string + string"
  call_toScVal :: "jsvalue \<Rightarrow> string + scval"

definition ext :: "string + 'a \<Rightarrow> error + 'a" where
  "ext r = (case r of Inl m \<Rightarrow> Inl (HostError m) | Inr x \<Rightarrow> Inr x)"

definition andThen :: "error + 'a \<Rightarrow> ('a \<Rightarrow> error + 'b) \<Rightarrow> error + 'b" where
  "andThen r f = (case r of Inl e \<Rightarrow> Inl e | Inr x \<Rightarrow> f x)"

fun Object_entries :: "jsvalue \<Rightarrow> error + (jsvalue \<times> jsvalue) list" where
  "Object_entries JUndefined = Inl (HostError ''Cannot convert undefined or null to object'')"
| "Object_entries JNull = Inl (HostError ''Cannot convert undefined or null to object'')"
| "Object_entries (JObject ps) = Inr (map (\<lambda>(k, v). (JString k, v)) ps)"
| "Object_entries (JArray xs) = Inr (indexed xs)"
| "Object_entries (JBuffer bs) = Inr (indexed (map (\<lambda>b. JNumber (Finite (of_nat b))) bs))"
| "Object_entries (JString s) = Inr (indexed (map (\<lambda>c. JString [c]) s))"
| "Object_entries (JBoolean b) = Inr []"
| "Object_entries (JNumber n) = Inr []"
| "Object_entries (JBigInt i) = Inr []"
| "Object_entries (JSymbol d) = Inr []"
| "Object_entries (JFunction f) = Inr []"
| "Object_entries (JMap es) = Inr []"
| "Object_entries (JSet xs) = Inr []"

section \<open>The typed value codec (\<open>ScValConverter\<close>)\<close>

subsection \<open>Encoding\<close>

text \<open>
  The string branch of \<open>toScVal\<close>: a 56-character string starting with \<open>G\<close> is tried as an
  address, and the \<open>catch\<close> falls through to the string arm.
\<close>

definition toScVal_string :: "host \<Rightarrow> string \<Rightarrow> error + scval" where
  "toScVal_string h s =
     (if startsWith s ''G'' \<and> length s = 56
      then (case Address_new h s of
              Inr a \<Rightarrow> Inr (ScvAddress a)
            | Inl m \<Rightarrow> Inr (ScvString s))
      else Inr (ScvString s))"

text \<open>
  \<open>toScVal(value)\<close> called without a type, which is how \<open>toScVal\<close> and \<open>toTypedScVal\<close>
  call it on the items of a container.  \<open>Array.prototype.map\<close> stops at the first item whose
  conversion throws.  A \<open>Set\<close> is an object that is not a \<open>Map\<close>, and \<open>Object.entries\<close> of
  it is empty.
\<close>

function (sequential) toScVal_untyped :: "host \<Rightarrow> jsvalue \<Rightarrow> error + scval"
  and toScVal_items :: "host \<Rightarrow> jsvalue list \<Rightarrow> error + scval list"
  and toScVal_entries :: "host \<Rightarrow> (jsvalue \<times> jsvalue) list \<Rightarrow> error + (scval \<times> scval) list"
  and toScVal_props :: "host \<Rightarrow> (string \<times> jsvalue) list \<Rightarrow> error + (scval \<times> scval) list"
where
  "toScVal_untyped h JUndefined = Inr ScvVoid"
| "toScVal_untyped h JNull = Inr ScvVoid"
| "toScVal_untyped h (JBoolean b) = Inr (ScvBool b)"
| "toScVal_untyped h (JNumber n) =
     (if Number_isInteger n then Inr (ScvI32 n)
      else (case ScInt_toI64 h (JNumber n) of
              Inl m \<Rightarrow> Inl (HostError m)
            | Inr p \<Rightarrow> Inr (ScvI64 p)))"
| "toScVal_untyped h (JBigInt i) =
     (if i \<ge> 0
      then (case ScInt_toU64 h (JBigInt i) of
              Inl m \<Rightarrow> Inl (HostError m)
            | Inr p \<Rightarrow> Inr (ScvU64 p))
      else (case ScInt_toI64 h (JBigInt i) of
              Inl m \<Rightarrow> Inl (HostError m)
            | Inr p \<Rightarrow> Inr (ScvI64 p)))"
| "toScVal_untyped h (JString s) = toScVal_string h s"
| "toScVal_untyped h (JBuffer b) = Inr (ScvBytes b)"
| "toScVal_untyped h (JArray xs) =
     (case toScVal_items h xs of Inl e \<Rightarrow> Inl e | Inr vs \<Rightarrow> Inr (ScvVec vs))"
| "toScVal_untyped h (JMap es) =
     (case toScVal_entries h es of Inl e \<Rightarrow> Inl e | Inr ws \<Rightarrow> Inr (ScvMap ws))"
| "toScVal_untyped h (JSet xs) = Inr (ScvMap [])"
| "toScVal_untyped h (JObject ps) =
     (case toScVal_props h ps of Inl e \<Rightarrow> Inl e | Inr ws \<Rightarrow> Inr (ScvMap ws))"
| "toScVal_untyped h (JSymbol d) = Inl (Error ''Unsupported type for ScVal conversion: symbol'')"
| "toScVal_untyped h (JFunction f) = Inl (Error ''Unsupported type for ScVal conversion: function'')"
| "toScVal_items h [] = Inr []"
| "toScVal_items h (x # xs) =
     (case toScVal_untyped h x of
        Inl e \<Rightarrow> Inl e
      | Inr v \<Rightarrow> (case toScVal_items h xs of Inl e \<Rightarrow> Inl e | Inr vs \<Rightarrow> Inr (v # vs)))"
| "toScVal_entries h [] = Inr []"
| "toScVal_entries h ((k, v) # es) =
     (case toScVal_untyped h k of
        Inl e \<Rightarrow> Inl e
      | Inr k' \<Rightarrow>
          (case toScVal_untyped h v of
             Inl e \<Rightarrow> Inl e
           | Inr v' \<Rightarrow>
               (case toScVal_entries h es of Inl e \<Rightarrow> Inl e | Inr ws \<Rightarrow> Inr ((k', v') # ws))))"
| "toScVal_props h [] = Inr []"
| "toScVal_props h ((k, v) # ps) =
     (case toScVal_string h k of
        Inl e \<Rightarrow> Inl e
      | Inr k' \<Rightarrow>
          (case toScVal_untyped h v of
             Inl e \<Rightarrow> Inl e
           | Inr v' \<Rightarrow>
               (case toScVal_props h ps of Inl e \<Rightarrow> Inl e | Inr ws \<Rightarrow> Inr ((k', v') # ws))))"
  by pat_completeness auto
termination
  by (relation "measure (\<lambda>x. case x of
          Inl (Inl (h, v)) \<Rightarrow> size v
        | Inl (Inr (h, xs)) \<Rightarrow> size_list size xs
        | Inr (Inl (h, es)) \<Rightarrow> size_list (size_prod size size) es
        | Inr (Inr (h, ps)) \<Rightarrow> size_list (size_prod (\<lambda>k. 0) size) ps)") auto

text \<open>
  \<open>toTypedScVal\<close>.  In the cases \<open>f32\<close> and \<open>f64\<close> the argument \<open>Number(value)\<close> is
  evaluated first, then \<open>new xdr.Float(...)\<close> (\<open>new xdr.Double(...)\<close>) fails, since the SDK
  has no such class.
\<close>

fun toTypedScVal :: "host \<Rightarrow> jsvalue \<Rightarrow> ScType \<Rightarrow> error + scval" where
  "toTypedScVal h v ty_void = Inr ScvVoid"
| "toTypedScVal h v ty_bool = Inr (ScvBool (js_Boolean v))"
| "toTypedScVal h v ty_u32 = andThen (ext (js_Number h v)) (\<lambda>n. Inr (ScvU32 n))"
| "toTypedScVal h v ty_i32 = andThen (ext (js_Number h v)) (\<lambda>n. Inr (ScvI32 n))"
| "toTypedScVal h v ty_u64 = andThen (ext (ScInt_toU64 h v)) (\<lambda>p. Inr (ScvU64 p))"
| "toTypedScVal h v ty_i64 = andThen (ext (ScInt_toI64 h v)) (\<lambda>p. Inr (ScvI64 p))"
| "toTypedScVal h v ty_u128 = andThen (ext (ScInt_toU128 h v)) (\<lambda>p. Inr (ScvU128 p))"
| "toTypedScVal h v ty_i128 = andThen (ext (ScInt_toI128 h v)) (\<lambda>p. Inr (ScvI128 p))"
| "toTypedScVal h v ty_u256 = andThen (ext (ScInt_toU256 h v)) (\<lambda>p. Inr (ScvU256 p))"
| "toTypedScVal h v ty_i256 = andThen (ext (ScInt_toI256 h v)) (\<lambda>p. Inr (ScvI256 p))"
| "toTypedScVal h v ty_f32 = andThen (ext (js_Number h v)) (\<lambda>n. not_a_constructor ''xdr.Float'')"
| "toTypedScVal h v ty_f64 = andThen (ext (js_Number h v)) (\<lambda>n. not_a_constructor ''xdr.Double'')"
| "toTypedScVal h v ty_bytes =
     (case v of
        JBuffer b \<Rightarrow> Inr (ScvBytes b)
      | _ \<Rightarrow> andThen (ext (Buffer_from h v)) (\<lambda>b. Inr (ScvBytes b)))"
| "toTypedScVal h v ty_string = andThen (ext (js_String h v)) (\<lambda>s. Inr (ScvString s))"
| "toTypedScVal h v ty_symbol = Inr (ScvSymbol v)"
| "toTypedScVal h v ty_address =
     (case v of
        JString s \<Rightarrow> andThen (ext (Address_new h s)) (\<lambda>a. Inr (ScvAddress a))
      | _ \<Rightarrow> ext (call_toScVal h v))"
| "toTypedScVal h v ty_option =
     (if v = JNull \<or> v = JUndefined then Inr ScvVoid else toScVal_untyped h v)"
| "toTypedScVal h v ty_vec =
     (case v of
        JArray xs \<Rightarrow> andThen (toScVal_items h xs) (\<lambda>vs. Inr (ScvVec vs))
      | _ \<Rightarrow> Inl (Error ''Expected array for vec type''))"
| "toTypedScVal h v ty_map =
     (case v of
        JMap es \<Rightarrow> andThen (toScVal_entries h es) (\<lambda>ws. Inr (ScvMap ws))
      | _ \<Rightarrow>
         if typeof v \<noteq> ''object'' then Inl (Error ''Expected object or Map for map type'')
         else andThen (Object_entries v)
                (\<lambda>es. andThen (toScVal_entries h es) (\<lambda>ws. Inr (ScvMap ws))))"
| "toTypedScVal h v ty_set =
     (case v of
        JArray xs \<Rightarrow> andThen (toScVal_items h xs) (\<lambda>vs. Inr (ScvVec vs))
      | JSet xs \<Rightarrow> andThen (toScVal_items h xs) (\<lambda>vs. Inr (ScvVec vs))
      | _ \<Rightarrow> Inl (Error ''Expected array or Set for set type''))"
| "toTypedScVal h v ty_tuple =
     (case v of
        JArray xs \<Rightarrow> andThen (toScVal_items h xs) (\<lambda>vs. Inr (ScvVec vs))
      | _ \<Rightarrow> Inl (Error ''Expected array for tuple type''))"
| "toTypedScVal h v ty_result = Inl (Error ''Unsupported ScType: result'')"

definition toScVal :: "host \<Rightarrow> jsvalue \<Rightarrow> ScType option \<Rightarrow> error + scval" where
  "toScVal h v type =
     (if v = JNull \<or> v = JUndefined then Inr ScvVoid
      else (case type of
              Some t \<Rightarrow> toTypedScVal h v t
            | None \<Rightarrow> toScVal_untyped h v))"

subsection \<open>Decoding\<close>

text \<open>
  \<open>fromScVal\<close> is one \<open>switch\<close> on the tag.  A \<open>switch\<close> evaluates its case labels in the
  order they are written until one is equal to the tag.  The labels from \<open>scvVoid()\<close> to
  \<open>scvI256()\<close> exist.  The case of \<open>scvBool()\<close> calls \<open>scVal.bool()\<close>, which does not.  The
  next label, \<open>xdr.ScValType.scvF32()\<close>, does not exist either: a value of any other arm
  reaches that label before the case written for it and the \<open>default\<close>, and the call
  raises the \<open>TypeError\<close>.
\<close>

fun fromScVal :: "host \<Rightarrow> scval \<Rightarrow> error + jsvalue" where
  "fromScVal h ScvVoid = Inr JNull"
| "fromScVal h (ScvBool b) = not_a_function ''scVal.bool''"
| "fromScVal h (ScvU32 n) = Inr (JNumber n)"
| "fromScVal h (ScvI32 n) = Inr (JNumber n)"
| "fromScVal h (ScvU64 p) = andThen (ext (ScInt_toBigInt h p)) (\<lambda>i. Inr (JBigInt i))"
| "fromScVal h (ScvI64 p) = andThen (ext (ScInt_toBigInt h p)) (\<lambda>i. Inr (JBigInt i))"
| "fromScVal h (ScvU128 p) = andThen (ext (ScInt_toBigInt h p)) (\<lambda>i. Inr (JBigInt i))"
| "fromScVal h (ScvI128 p) = andThen (ext (ScInt_toBigInt h p)) (\<lambda>i. Inr (JBigInt i))"
| "fromScVal h (ScvU256 p) = andThen (ext (ScInt_toBigInt h p)) (\<lambda>i. Inr (JBigInt i))"
| "fromScVal h (ScvI256 p) = andThen (ext (ScInt_toBigInt h p)) (\<lambda>i. Inr (JBigInt i))"
| "fromScVal h (ScvBytes b) = not_a_function ''xdr.ScValType.scvF32''"
| "fromScVal h (ScvString s) = not_a_function ''xdr.ScValType.scvF32''"
| "fromScVal h (ScvSymbol s) = not_a_function ''xdr.ScValType.scvF32''"
| "fromScVal h (ScvAddress a) = not_a_function ''xdr.ScValType.scvF32''"
| "fromScVal h (ScvVec xs) = not_a_function ''xdr.ScValType.scvF32''"
| "fromScVal h (ScvMap es) = not_a_function ''xdr.ScValType.scvF32''"
| "fromScVal h (ScvContractInstance x) = not_a_function ''xdr.ScValType.scvF32''"
| "fromScVal h (ScvLedgerKeyNonce x) = not_a_function ''xdr.ScValType.scvF32''"
| "fromScVal h (ScvError x) = not_a_function ''xdr.ScValType.scvF32''"
| "fromScVal h (ScvOther name) = not_a_function ''xdr.ScValType.scvF32''"




subsection \<open>Argument lists\<close>

text \<open>
  \<open>encodeArgs(args, types?)\<close>.  An array is truthy whatever its length, so the length check
  runs whenever \<open>types\<close> is given.  After the check \<open>types[index]\<close> is in range, and the
  loop below takes the hints off their list in step with the arguments; without \<open>types\<close>
  the list is empty and every argument is encoded without a hint.
\<close>

fun encodeArgs_map :: "host \<Rightarrow> jsvalue list \<Rightarrow> ScType option list \<Rightarrow> error + scval list" where
  "encodeArgs_map h [] ts = Inr []"
| "encodeArgs_map h (arg # args) ts =
     (case toScVal h arg (case ts of [] \<Rightarrow> None | t # _ \<Rightarrow> t) of
        Inl e \<Rightarrow> Inl e
      | Inr v \<Rightarrow> (case encodeArgs_map h args (tl ts) of Inl e \<Rightarrow> Inl e | Inr vs \<Rightarrow> Inr (v # vs)))"

definition encodeArgs :: "host \<Rightarrow> jsvalue list \<Rightarrow> ScType list option \<Rightarrow> error + scval list" where
  "encodeArgs h args types =
     (case types of
        Some ts \<Rightarrow>
          if length ts \<noteq> length args
          then Inl (Error ''Number of types must match number of arguments'')
          else encodeArgs_map h args (map Some ts)
      | None \<Rightarrow> encodeArgs_map h args [])"

section \<open>The error classifier (\<open>ErrorParser\<close>)\<close>

text \<open>
  A \<open>SorobanError\<close> carries a message, a numeric code and a type tag.  A message built by
  a template literal keeps the interpolated value next to the literal text; that value is a
  native value or a wire value (an \<open>xdr\<close> object), which is also what \<open>extractErrorValue\<close>
  and \<open>extractScValValue\<close> hand back.
\<close>

datatype extracted = Native jsvalue | Raw scval

datatype message = Text string | Template string extracted

record SorobanError =
  message :: message
  code :: number
  type :: string

definition new_SorobanError :: "message \<Rightarrow> number \<Rightarrow> string \<Rightarrow> SorobanError" where
  "new_SorobanError m c t = \<lparr> message = m, code = c, type = t \<rparr>"

fun extracted_set ::
  "(extracted \<times> extracted) list \<Rightarrow> extracted \<Rightarrow> extracted \<Rightarrow> (extracted \<times> extracted) list" where
  "extracted_set [] k v = [(k, v)]"
| "extracted_set ((k', v') # es) k v =
     (if (case k' of Native a \<Rightarrow> is_primitive a \<and> k' = k | Raw r \<Rightarrow> False)
      then (k', v) # es else (k', v') # extracted_set es k v)"

fun extracted_get :: "(extracted \<times> extracted) list \<Rightarrow> string \<Rightarrow> extracted option" where
  "extracted_get [] name = None"
| "extracted_get ((k, v) # es) name =
     (if k = Native (JString name) then Some v else extracted_get es name)"

text \<open>
  The labels of the two \<open>switch\<close>es below exist in the SDK; their cases for a boolean
  and for a symbol call \<open>bool()\<close> and \<open>symbol()\<close>, which do not.  The error is caught by
  the \<open>try\<close> of \<open>parseError\<close>.
\<close>

fun extractScValValue :: "host \<Rightarrow> scval \<Rightarrow> error + extracted" where
  "extractScValValue h ScvVoid = Inr (Native JNull)"
| "extractScValValue h (ScvBool b) = not_a_function ''scVal.bool''"
| "extractScValValue h (ScvU32 n) = Inr (Native (JNumber n))"
| "extractScValValue h (ScvI32 n) = Inr (Native (JNumber n))"
| "extractScValValue h (ScvString s) = Inr (Native (JString s))"
| "extractScValValue h (ScvSymbol s) = not_a_function ''scVal.symbol''"
| "extractScValValue h scVal = Inr (Raw scVal)"

fun extractErrorValue_map ::
  "host \<Rightarrow> (extracted \<times> extracted) list \<Rightarrow> (scval \<times> scval) list \<Rightarrow> error + (extracted \<times> extracted) list"
where
  "extractErrorValue_map h m [] = Inr m"
| "extractErrorValue_map h m ((k, v) # es) =
     andThen (extractScValValue h k) (\<lambda>key.
     andThen (extractScValValue h v) (\<lambda>val.
       extractErrorValue_map h (extracted_set m key val) es))"

text \<open>
  \<open>extractErrorValue\<close> returns the \<open>Map\<close> it builds for a wire map, and otherwise a single
  value: the payload of the error arm, a number, a string, or the wire value itself.
\<close>

datatype error_value = ErrMap "(extracted \<times> extracted) list" | ErrValue extracted

fun extractErrorValue :: "host \<Rightarrow> scval \<Rightarrow> error + error_value" where
  "extractErrorValue h (ScvError x) = Inr (ErrValue (Native x))"
| "extractErrorValue h (ScvU32 n) = Inr (ErrValue (Native (JNumber n)))"
| "extractErrorValue h (ScvI32 n) = Inr (ErrValue (Native (JNumber n)))"
| "extractErrorValue h (ScvString s) = Inr (ErrValue (Native (JString s)))"
| "extractErrorValue h (ScvSymbol s) = not_a_function ''result.symbol''"
| "extractErrorValue h (ScvMap es) = andThen (extractErrorValue_map h [] es) (\<lambda>m. Inr (ErrMap m))"
| "extractErrorValue h scVal = Inr (ErrValue (Raw scVal))"

definition parseErrorCode :: "number \<Rightarrow> SorobanError" where
  "parseErrorCode c =
     (if c = Finite 1 then new_SorobanError (Text ''Contract panicked'') (Finite 1) ''ContractPanic''
      else if c = Finite 2 then new_SorobanError (Text ''Arithmetic overflow'') (Finite 2) ''ArithmeticOverflow''
      else if c = Finite 3 then new_SorobanError (Text ''Division by zero'') (Finite 3) ''DivisionByZero''
      else if c = Finite 4 then new_SorobanError (Text ''Invalid arithmetic'') (Finite 4) ''InvalidArithmetic''
      else if c = Finite 5 then new_SorobanError (Text ''Invalid input'') (Finite 5) ''InvalidInput''
      else if c = Finite 6 then new_SorobanError (Text ''Index out of bounds'') (Finite 6) ''IndexOutOfBounds''
      else if c = Finite 7 then new_SorobanError (Text ''Memory access violation'') (Finite 7) ''MemoryAccessViolation''
      else if c = Finite 8 then new_SorobanError (Text ''Invalid conversion'') (Finite 8) ''InvalidConversion''
      else if c = Finite 9 then new_SorobanError (Text ''Missing value in optional'') (Finite 9) ''MissingValue''
      else if c = Finite 10 then new_SorobanError (Text ''Expected error in result'') (Finite 10) ''ExpectedError''
      else if c = Finite 11 then new_SorobanError (Text ''Host context error'') (Finite 11) ''HostContextError''
      else new_SorobanError (Template ''Unknown error code: '' (Native (JNumber c))) c ''UnknownCode'')"

definition string_or :: "extracted option \<Rightarrow> string \<Rightarrow> string" where
  "string_or x d = (case x of Some (Native (JString s)) \<Rightarrow> s | _ \<Rightarrow> d)"

definition parseErrorStruct :: "(extracted \<times> extracted) list \<Rightarrow> SorobanError" where
  "parseErrorStruct errorMap =
     (case extracted_get errorMap ''code'' of
        Some (Native (JNumber c)) \<Rightarrow>
          new_SorobanError
            (Text (string_or (extracted_get errorMap ''message'') ''Contract error''))
            c
            (string_or (extracted_get errorMap ''type'') ''ContractError'')
      | _ \<Rightarrow>
          new_SorobanError
            (Text (string_or (extracted_get errorMap ''message'') ''Unknown contract error''))
            (Finite 0)
            (string_or (extracted_get errorMap ''type'') ''ContractError''))"

definition error_message :: "error \<Rightarrow> string" where
  "error_message e = (case e of Error m \<Rightarrow> m | HostError m \<Rightarrow> m)"

definition parseError :: "host \<Rightarrow> scval option \<Rightarrow> SorobanError" where
  "parseError h result =
     (case result of
        None \<Rightarrow> new_SorobanError (Text ''Unknown error occurred'') (Finite (- 1)) ''Unknown''
      | Some r \<Rightarrow>
          (case extractErrorValue h r of
             Inr (ErrMap m) \<Rightarrow> parseErrorStruct m
           | Inr (ErrValue (Native (JMap es))) \<Rightarrow>
               parseErrorStruct (map (\<lambda>(k, v). (Native k, Native v)) es)
           | Inr (ErrValue (Native (JNumber c))) \<Rightarrow> parseErrorCode c
           | Inr (ErrValue (Native (JString s))) \<Rightarrow> new_SorobanError (Text s) (Finite 0) ''Custom''
           | Inr (ErrValue x) \<Rightarrow>
               new_SorobanError (Template ''Unrecognized error format: '' x)
                 (Finite (- 1)) ''InvalidFormat''
           | Inl e \<Rightarrow>
               new_SorobanError (Text (''Failed to parse error: '' @ error_message e))
                 (Finite (- 2)) ''ParseError''))"

text \<open>
  \<open>parseSimulationError(error?, result?)\<close>.  The empty string is falsy, like \<open>undefined\<close>.
  The substring tests run in the order of the source and the first hit returns.
\<close>

definition parseSimulationError :: "host \<Rightarrow> string option \<Rightarrow> scval option \<Rightarrow> SorobanError" where
  "parseSimulationError h error result =
     (case error of
        Some e \<Rightarrow>
          if e \<noteq> [] then
            (if str_includes e ''insufficient fee''
             then new_SorobanError (Text ''Insufficient fee for transaction'') (Finite 4001) ''InsufficientFee''
             else if str_includes e ''insufficient balance''
             then new_SorobanError (Text ''Insufficient balance'') (Finite 4002) ''InsufficientBalance''
             else if str_includes e ''contract not found''
             then new_SorobanError (Text ''Contract not found'') (Finite 4003) ''ContractNotFound''
             else if str_includes e ''method not found''
             then new_SorobanError (Text ''Method not found'') (Finite 4004) ''MethodNotFound''
             else if str_includes e ''invalid argument''
             then new_SorobanError (Text ''Invalid argument'') (Finite 4005) ''InvalidArgument''
             else new_SorobanError (Text e) (Finite 4000) ''SimulationError'')
          else (case result of
                  Some r \<Rightarrow> parseError h result
                | None \<Rightarrow> new_SorobanError (Text ''Simulation failed'') (Finite 4000) ''SimulationError'')
      | None \<Rightarrow>
          (case result of
             Some r \<Rightarrow> parseError h result
           | None \<Rightarrow> new_SorobanError (Text ''Simulation failed'') (Finite 4000) ''SimulationError''))"

text \<open>
  The retry policy.  An attempt count is a whole number; so is a ledger sequence number
  of the event engine further down.  Both are integers here.
\<close>

definition isRecoverableError :: "SorobanError \<Rightarrow> bool" where
  "isRecoverableError error =
     (type error \<in> set [''InsufficientFee'', ''InsufficientBalance'', ''NetworkError'', ''Timeout''])"

definition shouldRetry :: "SorobanError \<Rightarrow> int \<Rightarrow> bool" where
  "shouldRetry error attemptCount =
     (if \<not> isRecoverableError error then False
      else if attemptCount \<ge> 3 then False
      else \<not> (type error \<in> set [''InsufficientBalance'', ''ContractNotFound'']))"

section \<open>The invocation orchestrator (\<open>SorobanContractManager\<close>)\<close>

text \<open>
  An event as the callers see it.  Its \<open>contractId\<close> is a string where the code has
  converted it, and the \<open>Contract\<close> object of the RPC response where the spread of
  \<open>convertRpcEventToDetail\<close> has put the raw property back; \<open>ev_extra\<close> holds the
  properties beyond the seven declared ones that the spread copies.
\<close>

datatype contract_ref = ContractIdString string | ContractObject string

record ContractEventDetail =
  ev_contractId :: contract_ref
  ev_type :: string
  ev_topics :: "scval list"
  ev_data :: scval
  ev_timestamp :: int
  ev_ledger :: int
  ev_txHash :: string
  ev_extra :: "(string \<times> jsvalue) list"

record Keypair =
  publicKey :: string

record ContractInvocationParams =
  inv_contractId :: string
  inv_method :: string
  inv_args :: "jsvalue list"
  inv_caller :: Keypair
  inv_networkPassphrase :: string
  inv_simulateOnly :: bool

record Account =
  accountId :: string
  sequenceNumber :: string

text \<open>The transaction \<open>TransactionBuilder\<close> builds around the single \<open>contract.call\<close>.\<close>

record Transaction =
  tx_source :: Account
  tx_fee :: string
  tx_networkPassphrase :: string
  tx_contract :: string
  tx_method :: string
  tx_args :: "scval list"
  tx_timeout :: nat
  tx_signatures :: "string list"

text \<open>The events of a transaction's meta, as \<open>parseEvents\<close> reads them.\<close>

record xdr_ContractEvent =
  xe_contractId :: "string option"
  xe_type :: string
  xe_topics :: "scval list"
  xe_data :: scval

datatype TransactionMetaV3 = TransactionMetaV3 (sorobanMeta: "xdr_ContractEvent list option")

datatype TransactionMeta = TransactionMeta (v3: "TransactionMetaV3 option")

text \<open>
  \<open>parseEvents\<close> is declared for a transaction meta.  \<open>invokeContract\<close> passes it
  \<open>result.resultMetaXdr\<close>; \<open>convertSimulationToResult\<close> passes it \<open>simulation.result\<close>, the
  value that \<open>InvocationResult\<close> declares as an \<open>xdr.ScVal\<close>.  That object has no method
  \<open>v3\<close>, so on it the call \<open>meta.v3()\<close> raises a \<open>TypeError\<close>.
\<close>

datatype meta_argument = MetaObject TransactionMeta | ScValObject scval

record SimulateTransactionResponse =
  isSimulationSuccess :: bool
  sim_error :: string
  sim_result :: "scval option"

record SendTransactionResponse =
  status :: string
  hash :: string

record GetTransactionResponse =
  isGetTransactionSuccess :: bool
  resultXdr :: string
  returnValue :: "scval option"
  tx_ledger :: "int option"
  resultMetaXdr :: "TransactionMeta option"

record InvocationResult =
  result :: "scval option"
  transactionHash :: string
  ledger :: int
  events :: "ContractEventDetail list"
  auth :: "string list"

text \<open>
  The RPC server and the SDK calls of the pipeline.  Each returns \<open>Inl m\<close> when the call
  rejects or throws with message \<open>m\<close>.  The log of a run lists the server's primitives in
  the order they were called.
\<close>

record rpc_server =
  getAccount :: "string \<Rightarrow> string + Account"
  Contract_new :: "string \<Rightarrow> string + string"
  simulateTransaction :: "Transaction \<Rightarrow> string + SimulateTransactionResponse"
  prepareTransaction :: "Transaction \<Rightarrow> SimulateTransactionResponse \<Rightarrow> string + Transaction"
  sendTransaction :: "Transaction \<Rightarrow> string + SendTransactionResponse"
  getTransaction :: "string \<Rightarrow> string + GetTransactionResponse"

datatype rpc_call =
    Call_getAccount string
  | Call_simulateTransaction Transaction
  | Call_sendTransaction Transaction
  | Call_getTransaction string

definition parseEvents_event :: "xdr_ContractEvent \<Rightarrow> ContractEventDetail" where
  "parseEvents_event event =
     \<lparr> ev_contractId = ContractIdString (case xe_contractId event of Some c \<Rightarrow> c | None \<Rightarrow> []),
       ev_type = xe_type event,
       ev_topics = xe_topics event,
       ev_data = xe_data event,
       ev_timestamp = 0,
       ev_ledger = 0,
       ev_txHash = [],
       ev_extra = [] \<rparr>"

definition parseEvents :: "meta_argument option \<Rightarrow> error + ContractEventDetail list" where
  "parseEvents meta =
     (case meta of
        None \<Rightarrow> Inr []
      | Some (ScValObject v) \<Rightarrow> Inl (HostError ''meta.v3 is not a function'')
      | Some (MetaObject m) \<Rightarrow>
          (case v3 m of
             None \<Rightarrow> Inr []
           | Some v \<Rightarrow>
               (case sorobanMeta v of
                  None \<Rightarrow> Inr []
                | Some es \<Rightarrow> Inr (map parseEvents_event es))))"

definition parseAuth :: "scval option \<Rightarrow> string list" where
  "parseAuth r = []"

definition convertSimulationToResult :: "SimulateTransactionResponse \<Rightarrow> error + InvocationResult" where
  "convertSimulationToResult simulation =
     (case parseEvents (map_option ScValObject (sim_result simulation)) of
        Inl e \<Rightarrow> Inl e
      | Inr evs \<Rightarrow>
          Inr \<lparr> result = sim_result simulation,
                transactionHash = [],
                ledger = 0,
                events = evs,
                auth = parseAuth (sim_result simulation) \<rparr>)"

definition BASE_FEE :: string where
  "BASE_FEE = ''100''"

definition invocation_failed :: "string \<Rightarrow> error + InvocationResult" where
  "invocation_failed m = Inl (Error (''Contract invocation failed: '' @ m))"

definition invokeContract ::
  "host \<Rightarrow> rpc_server \<Rightarrow> ContractInvocationParams \<Rightarrow> (error + InvocationResult) \<times> rpc_call list" where
  "invokeContract h server params =
     (let c1 = Call_getAccount (publicKey (inv_caller params)) in
      case getAccount server (publicKey (inv_caller params)) of
        Inl m \<Rightarrow> (invocation_failed m, [c1])
      | Inr account \<Rightarrow>
      (case Contract_new server (inv_contractId params) of
        Inl m \<Rightarrow> (invocation_failed m, [c1])
      | Inr contract \<Rightarrow>
      (case encodeArgs h (inv_args params) None of
        Inl e \<Rightarrow> (invocation_failed (error_message e), [c1])
      | Inr scArgs \<Rightarrow>
      (let tx = \<lparr> tx_source = account, tx_fee = BASE_FEE,
                  tx_networkPassphrase = inv_networkPassphrase params,
                  tx_contract = contract, tx_method = inv_method params,
                  tx_args = scArgs, tx_timeout = 30, tx_signatures = [] \<rparr>;
           c2 = Call_simulateTransaction tx in
       case simulateTransaction server tx of
        Inl m \<Rightarrow> (invocation_failed m, [c1, c2])
      | Inr simulation \<Rightarrow>
       if \<not> isSimulationSuccess simulation
       then (invocation_failed (''Simulation failed: '' @ sim_error simulation), [c1, c2])
       else if inv_simulateOnly params
       then (case convertSimulationToResult simulation of
               Inl e \<Rightarrow> (invocation_failed (error_message e), [c1, c2])
             | Inr r \<Rightarrow> (Inr r, [c1, c2]))
       else
      (case prepareTransaction server tx simulation of
        Inl m \<Rightarrow> (invocation_failed m, [c1, c2])
      | Inr prepared \<Rightarrow>
      (let preparedTx = prepared \<lparr> tx_signatures := tx_signatures prepared @ [publicKey (inv_caller params)] \<rparr>;
           c3 = Call_sendTransaction preparedTx in
       case sendTransaction server preparedTx of
        Inl m \<Rightarrow> (invocation_failed m, [c1, c2, c3])
      | Inr response \<Rightarrow>
       if status response \<noteq> ''PENDING''
       then (invocation_failed (''Transaction failed: '' @ status response), [c1, c2, c3])
       else
      (let c4 = Call_getTransaction (hash response) in
       case getTransaction server (hash response) of
        Inl m \<Rightarrow> (invocation_failed m, [c1, c2, c3, c4])
      | Inr res \<Rightarrow>
       if \<not> isGetTransactionSuccess res
       then (invocation_failed (''Transaction execution failed: '' @ resultXdr res), [c1, c2, c3, c4])
       else
      (case parseEvents (map_option MetaObject (resultMetaXdr res)) of
        Inl e \<Rightarrow> (invocation_failed (error_message e), [c1, c2, c3, c4])
      | Inr evs \<Rightarrow>
         (Inr \<lparr> result = returnValue res,
                 transactionHash = hash response,
                 ledger = (case tx_ledger res of Some l \<Rightarrow> l | None \<Rightarrow> 0),
                 events = evs,
                 auth = parseAuth (returnValue res) \<rparr>,
          [c1, c2, c3, c4])))))))))"

section \<open>The event engine (\<open>ContractEventMonitor\<close>)\<close>

text \<open>
  A subscription as \<open>subscribeToEvents\<close> receives it.  A callback is modelled by what the
  engine can observe of it: \<open>onEvent\<close> maps the delivered event to \<open>None\<close> when it returns
  and to \<open>Some m\<close> when it throws an error with message \<open>m\<close>; \<open>onError\<close> and \<open>onClose\<close>
  are notifications, present or absent, that return when called.
\<close>

record EventSubscription =
  sub_id :: string
  sub_contractId :: string
  sub_eventTypes :: "string list option"
  onEvent :: "ContractEventDetail \<Rightarrow> string option"
  onError :: bool
  onClose :: bool

record TopicFilter =
  topic_type :: string
  topic_value :: string

record EventFilter =
  filter_type :: string
  filter_contractIds :: "string list"
  filter_topics :: "TopicFilter list option"

record GetEventsRequest =
  startLedger :: int
  endLedger :: int
  filters :: "EventFilter list"

text \<open>
  An event of a \<open>getEvents\<close> response.  A property the response leaves out is \<open>None\<close>;
  \<open>re_contractId\<close> is the \<open>Contract\<close> object of the event, given by its id; \<open>re_extra\<close>
  lists the own properties of the event beyond the seven.
\<close>

record RpcEvent =
  re_contractId :: "string option"
  re_type :: string
  re_topics :: "scval list option"
  re_data :: "scval option"
  re_timestamp :: "int option"
  re_ledger :: "int option"
  re_txHash :: "string option"
  re_extra :: "(string \<times> jsvalue) list"

text \<open>
  What the RPC server answers at the moment of one call of the engine: the latest ledger
  sequence, and the events of a query.  \<open>Inl m\<close> is a rejection with message \<open>m\<close>.
\<close>

record ledger_server =
  getLatestLedger :: "string + int"
  getEvents :: "GetEventsRequest \<Rightarrow> string + RpcEvent list"

text \<open>What a run of the engine does to the outside, in order.\<close>

datatype effect =
    Call_getLatestLedger
  | Call_getEvents GetEventsRequest
  | Call_onEvent string ContractEventDetail
  | Call_onError string
  | Call_onClose string
  | Call_setInterval string
  | Call_clearInterval string
  | Console_error string

text \<open>
  The engine's fields.  The two \<open>Map\<close>s keep their keys in insertion order; of a timer
  only the subscription it belongs to matters.  There is one \<open>lastLedger\<close> per engine.
\<close>

record ContractEventMonitor =
  subscriptions :: "(string \<times> EventSubscription) list"
  pollingIntervals :: "string list"
  lastLedger :: int

definition new_ContractEventMonitor :: ContractEventMonitor where
  "new_ContractEventMonitor = \<lparr> subscriptions = [], pollingIntervals = [], lastLedger = 0 \<rparr>"

fun registry_set :: "(string \<times> 'a) list \<Rightarrow> string \<Rightarrow> 'a \<Rightarrow> (string \<times> 'a) list" where
  "registry_set [] k v = [(k, v)]"
| "registry_set ((k', v') # es) k v =
     (if k' = k then (k', v) # es else (k', v') # registry_set es k v)"

definition registry_delete :: "(string \<times> 'a) list \<Rightarrow> string \<Rightarrow> (string \<times> 'a) list" where
  "registry_delete es k = filter (\<lambda>(k', v). k' \<noteq> k) es"

text \<open>
  \<open>generateSubscriptionId\<close> reads the clock and the random generator; their two values
  are arguments here.
\<close>

definition generateSubscriptionId :: "string \<Rightarrow> nat \<Rightarrow> string \<Rightarrow> string" where
  "generateSubscriptionId contractId timestamp random =
     take 8 contractId @ ''_'' @ show_nat timestamp @ ''_'' @ random"

definition startPolling :: "ContractEventMonitor \<Rightarrow> string \<Rightarrow> ContractEventMonitor \<times> effect list" where
  "startPolling m subscriptionId =
     (case map_of (subscriptions m) subscriptionId of
        None \<Rightarrow> (m, [])
      | Some subscription \<Rightarrow>
          (m \<lparr> pollingIntervals :=
                 (if subscriptionId \<in> set (pollingIntervals m) then pollingIntervals m
                  else pollingIntervals m @ [subscriptionId]) \<rparr>,
           [Call_setInterval subscriptionId]))"

definition subscribeToEvents ::
  "ContractEventMonitor \<Rightarrow> ledger_server \<Rightarrow> nat \<Rightarrow> string \<Rightarrow> EventSubscription
     \<Rightarrow> (error + string) \<times> ContractEventMonitor \<times> effect list" where
  "subscribeToEvents m server timestamp random subscription =
     (let subscriptionId = generateSubscriptionId (sub_contractId subscription) timestamp random;
          m1 = m \<lparr> subscriptions :=
                     registry_set (subscriptions m) subscriptionId
                       (subscription \<lparr> sub_id := subscriptionId \<rparr>) \<rparr>
      in case getLatestLedger server of
           Inl e \<Rightarrow>
             (Inl (HostError e), m1,
              Call_getLatestLedger # (if onError subscription then [Call_onError e] else []))
         | Inr sequence \<Rightarrow>
             (let m2 = m1 \<lparr> lastLedger := sequence \<rparr>;
                  (m3, fx) = startPolling m2 subscriptionId
              in (Inr subscriptionId, m3, Call_getLatestLedger # fx)))"

definition unsubscribe :: "ContractEventMonitor \<Rightarrow> string \<Rightarrow> ContractEventMonitor \<times> effect list" where
  "unsubscribe m subscriptionId =
     (let stop = (if subscriptionId \<in> set (pollingIntervals m)
                  then [Call_clearInterval subscriptionId] else []);
          close = (case map_of (subscriptions m) subscriptionId of
                     Some subscription \<Rightarrow>
                       if onClose subscription then [Call_onClose subscriptionId] else []
                   | None \<Rightarrow> [])
      in (m \<lparr> pollingIntervals := removeAll subscriptionId (pollingIntervals m),
              subscriptions := registry_delete (subscriptions m) subscriptionId \<rparr>,
          stop @ close))"

definition getSubscriptions :: "ContractEventMonitor \<Rightarrow> EventSubscription list" where
  "getSubscriptions m = map snd (subscriptions m)"

text \<open>
  \<open>convertRpcEventToDetail\<close> writes the seven converted properties and ends with the
  spread \<open>...event\<close>, which copies every own property of the event over them.  A property
  the event has therefore keeps its raw value, which differs from the converted one for
  \<open>contractId\<close> (the object instead of its string); a property the event lacks keeps the
  default; the other properties of the event come along.
\<close>

definition convertRpcEventToDetail :: "RpcEvent \<Rightarrow> ContractEventDetail" where
  "convertRpcEventToDetail event =
     \<lparr> ev_contractId = (case re_contractId event of
                           Some c \<Rightarrow> ContractObject c
                         | None \<Rightarrow> ContractIdString []),
       ev_type = re_type event,
       ev_topics = (case re_topics event of Some ts \<Rightarrow> ts | None \<Rightarrow> []),
       ev_data = (case re_data event of Some d \<Rightarrow> d | None \<Rightarrow> ScvVoid),
       ev_timestamp = (case re_timestamp event of Some t \<Rightarrow> t | None \<Rightarrow> 0),
       ev_ledger = (case re_ledger event of Some l \<Rightarrow> l | None \<Rightarrow> 0),
       ev_txHash = (case re_txHash event of Some x \<Rightarrow> x | None \<Rightarrow> []),
       ev_extra = re_extra event \<rparr>"

text \<open>
  The loop of \<open>pollForEvents\<close> over the events of a response: it stops at the first event
  whose callback throws, and hands that error to the \<open>catch\<close> of \<open>pollForEvents\<close>.
\<close>

fun processEvents :: "EventSubscription \<Rightarrow> RpcEvent list \<Rightarrow> effect list \<times> string option" where
  "processEvents subscription [] = ([], None)"
| "processEvents subscription (event # rest) =
     (let eventDetail = convertRpcEventToDetail event in
      case onEvent subscription eventDetail of
        Some e \<Rightarrow> ([Call_onEvent (sub_id subscription) eventDetail], Some e)
      | None \<Rightarrow>
          (let (fx, r) = processEvents subscription rest
           in (Call_onEvent (sub_id subscription) eventDetail # fx, r)))"

definition poll_request :: "ContractEventMonitor \<Rightarrow> EventSubscription \<Rightarrow> int \<Rightarrow> GetEventsRequest" where
  "poll_request m subscription currentLedger =
     \<lparr> startLedger = lastLedger m + 1,
       endLedger = currentLedger,
       filters =
         [\<lparr> filter_type = ''contract'',
            filter_contractIds = [sub_contractId subscription],
            filter_topics =
              map_option (map (\<lambda>t. \<lparr> topic_type = ''string'', topic_value = t \<rparr>))
                (sub_eventTypes subscription) \<rparr>] \<rparr>"

text \<open>
  One run of \<open>pollForEvents\<close>, taken as a whole: the model does not interleave it with
  other runs at its two \<open>await\<close>s.  Every error of the \<open>try\<close> block ends in the \<open>catch\<close>,
  which logs it and returns, so the timer callback of \<open>startPolling\<close> has nothing to catch.
\<close>

definition pollForEvents ::
  "ContractEventMonitor \<Rightarrow> ledger_server \<Rightarrow> string \<Rightarrow> ContractEventMonitor \<times> effect list" where
  "pollForEvents m server subscriptionId =
     (case map_of (subscriptions m) subscriptionId of
        None \<Rightarrow> (m, [])
      | Some subscription \<Rightarrow>
          (case getLatestLedger server of
             Inl e \<Rightarrow> (m, [Call_getLatestLedger, Console_error e])
           | Inr currentLedger \<Rightarrow>
               if currentLedger \<le> lastLedger m then (m, [Call_getLatestLedger])
               else
                 (let request = poll_request m subscription currentLedger in
                  case getEvents server request of
                    Inl e \<Rightarrow> (m, [Call_getLatestLedger, Call_getEvents request, Console_error e])
                  | Inr evs \<Rightarrow>
                      (case processEvents subscription evs of
                         (fx, Some e) \<Rightarrow>
                           (m, [Call_getLatestLedger, Call_getEvents request] @ fx @ [Console_error e])
                       | (fx, None) \<Rightarrow>
                           (m \<lparr> lastLedger := currentLedger \<rparr>,
                            [Call_getLatestLedger, Call_getEvents request] @ fx)))))"

text \<open>
  The ranges of ledgers that a series of polls of one subscription has finished with, one
  poll per answer of the server: a poll contributes the range from the old cursor + 1 to
  the new cursor when it moves the cursor.
\<close>

fun scans :: "ContractEventMonitor \<Rightarrow> string \<Rightarrow> ledger_server list \<Rightarrow> (int \<times> int) list" where
  "scans m subscriptionId [] = []"
| "scans m subscriptionId (server # servers) =
     (let m' = fst (pollForEvents m server subscriptionId) in
      (if lastLedger m' \<noteq> lastLedger m then [(lastLedger m + 1, lastLedger m')] else [])
        @ scans m' subscriptionId servers)"

fun contiguous :: "int \<Rightarrow> (int \<times> int) list \<Rightarrow> bool" where
  "contiguous c [] = True"
| "contiguous c ((a, b) # rs) = (a = c + 1 \<and> a \<le> b \<and> contiguous b rs)"

text \<open>The event queries among the effects of a run.\<close>

fun queries :: "effect list \<Rightarrow> GetEventsRequest list" where
  "queries [] = []"
| "queries (Call_getEvents r # fx) = r # queries fx"
| "queries (x # fx) = queries fx"

section \<open>Notions used by the properties\<close>





text \<open>The hint of the argument at position \<open>i\<close>, for a list of optional hints.\<close>

definition hint_at :: "ScType option list \<Rightarrow> nat \<Rightarrow> ScType option" where
  "hint_at hs i = (case drop i hs of [] \<Rightarrow> None | t # ts \<Rightarrow> t)"

text \<open>The substring relation, which \<open>str_includes\<close> decides.\<close>

definition occurs_in :: "string \<Rightarrow> string \<Rightarrow> bool" where
  "occurs_in p s \<longleftrightarrow> (\<exists>a b. s = a @ p @ b)"

section \<open>Sample collaborators\<close>

text \<open>
  One choice of runtime and SDK, of RPC server and of subscription, on which the model is
  run at concrete inputs.  The properties below are proved for every choice.
\<close>

definition sample_ScInt :: "int \<Rightarrow> int \<Rightarrow> jsvalue \<Rightarrow> string + int" where
  "sample_ScInt lo hi v =
     (case v of
        JBigInt i \<Rightarrow> if lo \<le> i \<and> i < hi then Inr i else Inl ''value too large''
      | JNumber (Finite r) \<Rightarrow>
          if of_int \<lfloor>r\<rfloor> = r
          then (if lo \<le> \<lfloor>r\<rfloor> \<and> \<lfloor>r\<rfloor> < hi then Inr \<lfloor>r\<rfloor> else Inl ''value too large'')
          else Inl ''The number cannot be converted to a BigInt because it is not an integer''
      | _ \<Rightarrow> Inl ''Cannot convert value to a BigInt'')"

definition sample_String :: "jsvalue \<Rightarrow> string + string" where
  "sample_String v =
     (case v of
        JString s \<Rightarrow> Inr s
      | JNull \<Rightarrow> Inr ''null''
      | JUndefined \<Rightarrow> Inr ''undefined''
      | JBoolean b \<Rightarrow> Inr (if b then ''true'' else ''false'')
      | JSymbol d \<Rightarrow> Inl ''Cannot convert a Symbol value to a string''
      | _ \<Rightarrow> Inr ''[object Object]'')"

definition sample_host :: host where
  "sample_host =
     \<lparr> js_Number = (\<lambda>v. case v of
           JNumber n \<Rightarrow> Inr n
         | JBoolean b \<Rightarrow> Inr (Finite (if b then 1 else 0))
         | JNull \<Rightarrow> Inr (Finite 0)
         | JBigInt i \<Rightarrow> Inr (Finite (of_int i))
         | JSymbol d \<Rightarrow> Inl ''Cannot convert a Symbol value to a number''
         | _ \<Rightarrow> Inr NaN),
       js_String = sample_String,
       Buffer_from = (\<lambda>v. case v of
           JString s \<Rightarrow> Inr (map of_char s)
         | JBuffer b \<Rightarrow> Inr b
         | _ \<Rightarrow> Inl ''The first argument must be of type string or an instance of Buffer''),
       ScInt_toU64 = sample_ScInt 0 (2 ^ 64),
       ScInt_toI64 = sample_ScInt (- (2 ^ 63)) (2 ^ 63),
       ScInt_toU128 = sample_ScInt 0 (2 ^ 128),
       ScInt_toI128 = sample_ScInt (- (2 ^ 127)) (2 ^ 127),
       ScInt_toU256 = sample_ScInt 0 (2 ^ 256),
       ScInt_toI256 = sample_ScInt (- (2 ^ 255)) (2 ^ 255),
       ScInt_toBigInt = Inr,
       Address_new = (\<lambda>s. if length s = 56 \<and> startsWith s ''G'' then Inr s
                           else Inl ''Unsupported address type''),
       Address_toString = Inr,
       call_toScVal = (\<lambda>v. Inl ''value.toScVal is not a function'') \<rparr>"

text \<open>The primitive of the RPC server behind an entry of the call log.\<close>

fun call_name :: "rpc_call \<Rightarrow> string" where
  "call_name (Call_getAccount a) = ''getAccount''"
| "call_name (Call_simulateTransaction t) = ''simulateTransaction''"
| "call_name (Call_sendTransaction t) = ''sendTransaction''"
| "call_name (Call_getTransaction x) = ''getTransaction''"

text \<open>
  The server and the request of the test \<open>should simulate only when requested\<close> of
  \<open>soroban-contract-manager.test.ts\<close>: the account is found, the simulation succeeds and
  carries a result.
\<close>

definition sample_server :: rpc_server where
  "sample_server =
     \<lparr> getAccount = (\<lambda>a. Inr \<lparr> accountId = a, sequenceNumber = ''1'' \<rparr>),
       Contract_new = Inr,
       simulateTransaction = (\<lambda>t. Inr \<lparr> isSimulationSuccess = True, sim_error = [],
                                         sim_result = Some (ScvOther ''success'') \<rparr>),
       prepareTransaction = (\<lambda>t s. Inr t),
       sendTransaction = (\<lambda>t. Inr \<lparr> status = ''PENDING'', hash = ''mock-tx-hash'' \<rparr>),
       getTransaction = (\<lambda>x. Inr \<lparr> isGetTransactionSuccess = True,
                                    resultXdr = ''mock-result-xdr'',
                                    returnValue = Some (ScvOther ''success''),
                                    tx_ledger = Some 12345,
                                    resultMetaXdr = None \<rparr>) \<rparr>"

definition sample_params :: ContractInvocationParams where
  "sample_params =
     \<lparr> inv_contractId = ''mock-contract-id'',
       inv_method = ''testMethod'',
       inv_args = [],
       inv_caller = \<lparr> publicKey = ''GDQZ43L2QQ3B5OUP4QKA52L2AKYYG5ZC5LEJ2TFKX2LFDWLXRWERFW53'' \<rparr>,
       inv_networkPassphrase = ''Test SDF Network ; September 2015'',
       inv_simulateOnly = True \<rparr>"

text \<open>
  Two subscriptions, the first with a callback that returns and the second with one that
  throws, an engine that holds both with its cursor at ledger 100, and servers that
  answer a given latest ledger and a given list of events.
\<close>

definition sample_subscription :: "string \<Rightarrow> bool \<Rightarrow> EventSubscription" where
  "sample_subscription c throws =
     \<lparr> sub_id = [], sub_contractId = c, sub_eventTypes = None,
       onEvent = (\<lambda>d. if throws then Some ''callback failed'' else None),
       onError = True, onClose = False \<rparr>"

definition sample_monitor :: ContractEventMonitor where
  "sample_monitor =
     \<lparr> subscriptions =
         [(''A'', (sample_subscription ''contract-1'' False) \<lparr> sub_id := ''A'' \<rparr>),
          (''B'', (sample_subscription ''contract-2'' True) \<lparr> sub_id := ''B'' \<rparr>)],
       pollingIntervals = [''A'', ''B''],
       lastLedger = 100 \<rparr>"

definition sample_event :: RpcEvent where
  "sample_event =
     \<lparr> re_contractId = Some ''contract-2'', re_type = ''contract'', re_topics = None,
       re_data = None, re_timestamp = Some 1000, re_ledger = Some 120, re_txHash = Some ''tx1'',
       re_extra = [(''id'', JString ''0000000515396079616-0000000001'')] \<rparr>"

definition ledger_at :: "int \<Rightarrow> RpcEvent list \<Rightarrow> ledger_server" where
  "ledger_at n evs = \<lparr> getLatestLedger = Inr n, getEvents = (\<lambda>r. Inr evs) \<rparr>"

definition events_down :: "int \<Rightarrow> ledger_server" where
  "events_down n = \<lparr> getLatestLedger = Inr n, getEvents = (\<lambda>r. Inl ''Query failed'') \<rparr>"

definition ledger_down :: ledger_server where
  "ledger_down = \<lparr> getLatestLedger = Inl ''Network error'', getEvents = (\<lambda>r. Inl ''Network error'') \<rparr>"


section \<open>Properties of the error classifier\<close>

lemma startsWith_iff: "startsWith s p \<longleftrightarrow> (\<exists>b. s = p @ b)"
  by (induction s p rule: startsWith.induct) auto

lemma str_includes_iff: "str_includes s p \<longleftrightarrow> (\<exists>a b. s = a @ p @ b)"
proof (induction s)
  case Nil
  then show ?case by auto
next
  case (Cons c cs)
  show ?case
  proof
    assume "str_includes (c # cs) p"
    then consider "startsWith (c # cs) p" | "str_includes cs p" by auto
    then show "\<exists>a b. c # cs = a @ p @ b"
    proof cases
      case 1
      then obtain b where "c # cs = p @ b" by (auto simp: startsWith_iff)
      then have "c # cs = [] @ p @ b" by simp
      then show ?thesis by blast
    next
      case 2
      then obtain a b where "cs = a @ p @ b" using Cons.IH by auto
      then have "c # cs = (c # a) @ p @ b" by simp
      then show ?thesis by blast
    qed
  next
    assume "\<exists>a b. c # cs = a @ p @ b"
    then obtain a b where ab: "c # cs = a @ p @ b" by auto
    show "str_includes (c # cs) p"
    proof (cases a)
      case Nil
      with ab have "startsWith (c # cs) p" by (auto simp: startsWith_iff)
      then show ?thesis by simp
    next
      case (Cons x a')
      with ab have "cs = a' @ p @ b" by simp
      then have "str_includes cs p" using Cons.IH by auto
      then show ?thesis by simp
    qed
  qed
qed

text \<open>
  C4.  \<open>shouldRetry\<close> is false for every error whose tag is outside the recoverable set
  InsufficientFee, InsufficientBalance, NetworkError, Timeout; it is false for the tags
  InsufficientBalance and ContractNotFound; it is false for every attempt count of 3 or
  more whatever the tag; and for an InsufficientFee error it is true at the attempt counts
  1 and 2 and false at 3.
\<close>

theorem shouldRetry_policy:
  "(type e \<notin> {''InsufficientFee'', ''InsufficientBalance'', ''NetworkError'', ''Timeout''}
      \<longrightarrow> \<not> shouldRetry e n) \<and>
   (type e = ''InsufficientBalance'' \<or> type e = ''ContractNotFound'' \<longrightarrow> \<not> shouldRetry e n) \<and>
   (3 \<le> n \<longrightarrow> \<not> shouldRetry e n) \<and>
   (type e = ''InsufficientFee'' \<longrightarrow> shouldRetry e 1 \<and> shouldRetry e 2 \<and> \<not> shouldRetry e 3)"
proof -
  have outside: "\<not> shouldRetry e n"
    if "type e \<notin> {''InsufficientFee'', ''InsufficientBalance'', ''NetworkError'', ''Timeout''}"
  proof -
    from that have "\<not> isRecoverableError e" by (simp add: isRecoverableError_def)
    then show ?thesis by (simp add: shouldRetry_def)
  qed
  have excluded: "\<not> shouldRetry e n"
    if "type e = ''InsufficientBalance'' \<or> type e = ''ContractNotFound''"
    using that by (auto simp: shouldRetry_def)
  have capped: "\<not> shouldRetry e n" if "3 \<le> n"
    using that by (simp add: shouldRetry_def)
  have fee: "shouldRetry e 1 \<and> shouldRetry e 2 \<and> \<not> shouldRetry e 3"
    if "type e = ''InsufficientFee''"
  proof -
    from that have "isRecoverableError e" by (simp add: isRecoverableError_def)
    with that show ?thesis by (simp add: shouldRetry_def)
  qed
  from outside excluded capped fee show ?thesis by blast
qed

theorem shouldRetry_policy_witness:
  "shouldRetry (parseSimulationError sample_host (Some ''tx rejected: insufficient fee'') None) 1 \<and>
   shouldRetry (parseSimulationError sample_host (Some ''tx rejected: insufficient fee'') None) 2 \<and>
   \<not> shouldRetry (parseSimulationError sample_host (Some ''tx rejected: insufficient fee'') None) 3 \<and>
   \<not> shouldRetry (parseSimulationError sample_host (Some ''insufficient balance'') None) 1 \<and>
   \<not> shouldRetry (new_SorobanError (Text ''Contract not found'') (Finite 4003) ''ContractNotFound'') 1 \<and>
   \<not> shouldRetry (new_SorobanError (Text ''timed out'') (Finite 0) ''Timeout'') 7"
proof -
  have fee: "type (parseSimulationError sample_host (Some ''tx rejected: insufficient fee'') None)
               = ''InsufficientFee''"
    by (simp add: parseSimulationError_def new_SorobanError_def)
  have bal: "type (parseSimulationError sample_host (Some ''insufficient balance'') None)
               = ''InsufficientBalance''"
    by (simp add: parseSimulationError_def new_SorobanError_def)
  have cnf: "type (new_SorobanError (Text ''Contract not found'') (Finite 4003) ''ContractNotFound'')
               \<notin> {''InsufficientFee'', ''InsufficientBalance'', ''NetworkError'', ''Timeout''}"
    by (simp add: new_SorobanError_def)
  have seven: "(3::int) \<le> 7" by simp
  show ?thesis
    using fee bal cnf seven
      shouldRetry_policy [of "parseSimulationError sample_host (Some ''tx rejected: insufficient fee'') None" 3]
      shouldRetry_policy [of "parseSimulationError sample_host (Some ''insufficient balance'') None" 1]
      shouldRetry_policy [of "new_SorobanError (Text ''Contract not found'') (Finite 4003) ''ContractNotFound''" 1]
      shouldRetry_policy [of "new_SorobanError (Text ''timed out'') (Finite 0) ''Timeout''" 7]
    by blast
qed

text \<open>
  C7, amended.  For every non-empty error message \<open>parseSimulationError\<close> returns the tag
  of the first rule, in the order \<open>insufficient fee\<close>, \<open>insufficient balance\<close>,
  \<open>contract not found\<close>, \<open>method not found\<close>, \<open>invalid argument\<close>, whose substring occurs
  in the message, and the tag SimulationError when none occurs.  A message that contains
  \<open>insufficient balance\<close> is therefore tagged InsufficientBalance only if it does not also
  contain \<open>insufficient fee\<close>, and likewise down the list.
\<close>

theorem parseSimulationError_first_match:
  "e \<noteq> [] \<Longrightarrow>
   type (parseSimulationError h (Some e) r) =
     (if occurs_in ''insufficient fee'' e then ''InsufficientFee''
      else if occurs_in ''insufficient balance'' e then ''InsufficientBalance''
      else if occurs_in ''contract not found'' e then ''ContractNotFound''
      else if occurs_in ''method not found'' e then ''MethodNotFound''
      else if occurs_in ''invalid argument'' e then ''InvalidArgument''
      else ''SimulationError'')"
  unfolding occurs_in_def str_includes_iff [symmetric]
  by (simp add: parseSimulationError_def new_SorobanError_def)

theorem parseSimulationError_first_match_witness:
  "type (parseSimulationError sample_host (Some ''host: insufficient balance'') None) = ''InsufficientBalance'' \<and>
   type (parseSimulationError sample_host (Some ''connection reset'') None) = ''SimulationError''"
proof -
  have a: "''host: insufficient balance'' \<noteq> []" by simp
  have b: "''connection reset'' \<noteq> []" by simp
  have oc: "\<not> occurs_in ''insufficient fee'' ''host: insufficient balance''"
    "occurs_in ''insufficient balance'' ''host: insufficient balance''"
    "\<not> occurs_in ''insufficient fee'' ''connection reset''"
    "\<not> occurs_in ''insufficient balance'' ''connection reset''"
    "\<not> occurs_in ''contract not found'' ''connection reset''"
    "\<not> occurs_in ''method not found'' ''connection reset''"
    "\<not> occurs_in ''invalid argument'' ''connection reset''"
    unfolding occurs_in_def str_includes_iff [symmetric] by simp_all
  show ?thesis
    using parseSimulationError_first_match [OF a, of sample_host None]
      parseSimulationError_first_match [OF b, of sample_host None] oc
    by simp
qed

text \<open>
  C7 as stated fails on a message in which two of the phrases occur: this one contains
  \<open>insufficient balance\<close> and is tagged InsufficientFee.
\<close>

theorem parseSimulationError_overlap_counterexample:
  "str_includes ''insufficient balance to pay insufficient fee'' ''insufficient balance'' \<and>
   type (parseSimulationError sample_host (Some ''insufficient balance to pay insufficient fee'') None)
     = ''InsufficientFee''"
  by (simp add: parseSimulationError_def new_SorobanError_def)

section \<open>Properties of the codec\<close>







text \<open>
  What \<open>fromScVal\<close> returns on.  It returns on the void value, on the \<open>u32\<close> and \<open>i32\<close>
  arms and, when \<open>ScInt\<close> reads the payload, on the six wide-integer arms.  On a boolean it
  calls the missing accessor, and on every other arm it reaches the missing label: it
  throws a \<open>TypeError\<close>.
\<close>

lemma fromScVal_returns:
  "fromScVal h w = Inr v \<Longrightarrow>
   switch w \<in> {scvVoid, scvU32, scvI32, scvU64, scvI64, scvU128, scvI128, scvU256, scvI256}"
  by (cases w) (simp_all add: not_a_function_def)

lemma fromScVal_throws:
  "switch w \<notin> {scvVoid, scvU32, scvI32, scvU64, scvI64, scvU128, scvI128, scvU256, scvI256} \<Longrightarrow>
   fromScVal h w =
     (if switch w = scvBool then Inl (HostError ''scVal.bool is not a function'')
      else Inl (HostError ''xdr.ScValType.scvF32 is not a function''))"
  by (cases w) (simp_all add: not_a_function_def)

text \<open>The values that do come back: \<open>null\<close> and the integral numbers.\<close>

lemma round_trip_null: "toScVal h JNull None = Inr ScvVoid \<and> fromScVal h ScvVoid = Inr JNull"
  by (simp add: toScVal_def)

lemma round_trip_integral_number:
  "Number_isInteger n \<Longrightarrow>
   toScVal h (JNumber n) None = Inr (ScvI32 n) \<and> fromScVal h (ScvI32 n) = Inr (JNumber n)"
  by (simp add: toScVal_def)

text \<open>
  Whatever the SDK does with it, a number that is not integral does not come back: its
  encoding, if there is one, is the \<open>i64\<close> arm, which decodes to a bigint or not at all.
\<close>

lemma non_integral_number_no_round_trip:
  "\<not> Number_isInteger n \<Longrightarrow> toScVal h (JNumber n) None = Inr w \<Longrightarrow> fromScVal h w \<noteq> Inr (JNumber n)"
  by (auto simp: toScVal_def andThen_def ext_def split: sum.splits)

text \<open>
  Every boolean, string, byte buffer, array, \<open>Map\<close>, \<open>Set\<close> and plain object that
  \<open>toScVal\<close> encodes is encoded to a wire value on which \<open>fromScVal\<close> throws, at the top
  level and whatever the value contains.
\<close>

lemma toScVal_untyped_tag:
  "toScVal_untyped h v = Inr w \<Longrightarrow>
   (case v of
      JBoolean b \<Rightarrow> switch w = scvBool
    | JString s \<Rightarrow> switch w = scvString \<or> switch w = scvAddress
    | JBuffer b \<Rightarrow> switch w = scvBytes
    | JArray xs \<Rightarrow> switch w = scvVec
    | JMap es \<Rightarrow> switch w = scvMap
    | JSet xs \<Rightarrow> switch w = scvMap
    | JObject ps \<Rightarrow> switch w = scvMap
    | JNumber n \<Rightarrow> switch w = (if Number_isInteger n then scvI32 else scvI64)
    | JBigInt i \<Rightarrow> switch w = (if i \<ge> 0 then scvU64 else scvI64)
    | _ \<Rightarrow> switch w = scvVoid)"
  by (cases v) (auto simp: toScVal_string_def split: sum.splits if_splits)

lemma encoded_value_not_decoded:
  assumes v: "typeof v = ''boolean'' \<or> typeof v = ''string'' \<or> typeof v = ''object'' \<and> v \<noteq> JNull"
    and w: "toScVal h v None = Inr w"
  shows "\<exists>m. fromScVal h w = Inl (HostError m)"
proof -
  from w v have u: "toScVal_untyped h v = Inr w"
    by (auto simp: toScVal_def split: if_splits)
  have "switch w \<in> {scvBool, scvString, scvAddress, scvBytes, scvVec, scvMap}"
    using v toScVal_untyped_tag [OF u] by (cases v) auto
  then have "switch w \<notin> {scvVoid, scvU32, scvI32, scvU64, scvI64, scvU128, scvI128, scvU256, scvI256}"
    by auto
  from fromScVal_throws [OF this] show ?thesis by (auto split: if_splits)
qed

text \<open>
  C1 fails on the code.  A boolean, a string, an array (empty or not) and a \<open>Map\<close> (empty
  or not) are encoded by \<open>toScVal\<close>, and \<open>fromScVal\<close> throws a \<open>TypeError\<close> on each of the
  encodings, whatever the SDK's \<open>ScInt\<close> and \<open>Address\<close> do: none of them comes back.
\<close>

theorem codec_round_trip_failing_input:
  "toScVal h (JBoolean True) None = Inr (ScvBool True) \<and>
   fromScVal h (ScvBool True) = Inl (HostError ''scVal.bool is not a function'') \<and>
   toScVal h (JString ''hello'') None = Inr (ScvString ''hello'') \<and>
   fromScVal h (ScvString ''hello'') = Inl (HostError ''xdr.ScValType.scvF32 is not a function'') \<and>
   toScVal h (JArray []) None = Inr (ScvVec []) \<and>
   fromScVal h (ScvVec []) = Inl (HostError ''xdr.ScValType.scvF32 is not a function'') \<and>
   toScVal h (JArray [JNumber (Finite 1), JNumber (Finite 2), JNumber (Finite 3)]) None
     = Inr (ScvVec [ScvI32 (Finite 1), ScvI32 (Finite 2), ScvI32 (Finite 3)]) \<and>
   fromScVal h (ScvVec [ScvI32 (Finite 1), ScvI32 (Finite 2), ScvI32 (Finite 3)])
     = Inl (HostError ''xdr.ScValType.scvF32 is not a function'') \<and>
   toScVal h (JMap []) None = Inr (ScvMap []) \<and>
   fromScVal h (ScvMap []) = Inl (HostError ''xdr.ScValType.scvF32 is not a function'') \<and>
   toScVal h (JMap [(JNumber (Finite 0), JNumber (Finite (- 1)))]) None
     = Inr (ScvMap [(ScvI32 (Finite 0), ScvI32 (Finite (- 1)))]) \<and>
   fromScVal h (ScvMap [(ScvI32 (Finite 0), ScvI32 (Finite (- 1)))])
     = Inl (HostError ''xdr.ScValType.scvF32 is not a function'')"
  by (simp add: toScVal_def toScVal_string_def not_a_function_def)

lemma hint_at_0: "hint_at hs 0 = (case hs of [] \<Rightarrow> None | t # ts \<Rightarrow> t)"
  by (simp add: hint_at_def)

lemma hint_at_Suc: "hint_at hs (Suc i) = hint_at (tl hs) i"
  by (simp add: hint_at_def drop_Suc)

lemma encodeArgs_map_Inr:
  "encodeArgs_map h args hs = Inr ws \<longleftrightarrow>
     length ws = length args \<and> (\<forall>i < length args. toScVal h (args ! i) (hint_at hs i) = Inr (ws ! i))"
proof (induction args arbitrary: hs ws)
  case Nil
  then show ?case by auto
next
  case (Cons a args)
  show ?case
  proof (cases ws)
    case Nil
    then show ?thesis by (auto split: sum.splits)
  next
    case (Cons w ws')
    have "encodeArgs_map h (a # args) hs = Inr (w # ws') \<longleftrightarrow>
        toScVal h a (hint_at hs 0) = Inr w \<and> encodeArgs_map h args (tl hs) = Inr ws'"
      by (auto simp: hint_at_0 split: sum.splits)
    also have "\<dots> \<longleftrightarrow> toScVal h a (hint_at hs 0) = Inr w \<and> length ws' = length args \<and>
        (\<forall>i < length args. toScVal h (args ! i) (hint_at hs (Suc i)) = Inr (ws' ! i))"
      by (simp add: Cons.IH hint_at_Suc)
    also have "\<dots> \<longleftrightarrow> length (w # ws') = length (a # args) \<and>
        (\<forall>i < length (a # args). toScVal h ((a # args) ! i) (hint_at hs i) = Inr ((w # ws') ! i))"
      by (auto simp: less_Suc_eq_0_disj)
    finally show ?thesis using Cons by simp
  qed
qed

lemma encodeArgs_map_Inl:
  "encodeArgs_map h args hs = Inl e \<Longrightarrow>
     \<exists>i < length args. toScVal h (args ! i) (hint_at hs i) = Inl e"
proof (induction args arbitrary: hs)
  case Nil
  then show ?case by simp
next
  case (Cons a args)
  show ?case
  proof (cases "toScVal h a (hint_at hs 0)")
    case (Inl e')
    with Cons.prems have "e' = e" by (simp add: hint_at_0)
    with Inl have "toScVal h ((a # args) ! 0) (hint_at hs 0) = Inl e" by simp
    then show ?thesis by blast
  next
    case (Inr w)
    with Cons.prems have "encodeArgs_map h args (tl hs) = Inl e"
      by (auto simp: hint_at_0 split: sum.splits)
    from Cons.IH [OF this] obtain i where "i < length args"
      "toScVal h (args ! i) (hint_at (tl hs) i) = Inl e" by blast
    then have "Suc i < length (a # args) \<and> toScVal h ((a # args) ! Suc i) (hint_at hs (Suc i)) = Inl e"
      by (simp add: hint_at_Suc)
    then show ?thesis by blast
  qed
qed

lemma encodeArgs_map_Inl_first:
  "encodeArgs_map h args hs = Inl e \<longleftrightarrow>
     (\<exists>i < length args. toScVal h (args ! i) (hint_at hs i) = Inl e \<and>
        (\<forall>j < i. \<exists>w. toScVal h (args ! j) (hint_at hs j) = Inr w))"
proof (induction args arbitrary: hs)
  case Nil
  then show ?case by simp
next
  case (Cons a args)
  show ?case
  proof (cases "toScVal h a (hint_at hs 0)")
    case (Inl e')
    have l: "encodeArgs_map h (a # args) hs = Inl e \<longleftrightarrow> e' = e"
      using Inl by (auto simp: hint_at_0)
    have r: "(\<exists>i < length (a # args). toScVal h ((a # args) ! i) (hint_at hs i) = Inl e \<and>
        (\<forall>j < i. \<exists>w. toScVal h ((a # args) ! j) (hint_at hs j) = Inr w)) \<longleftrightarrow> e' = e"
    proof
      assume "\<exists>i < length (a # args). toScVal h ((a # args) ! i) (hint_at hs i) = Inl e \<and>
        (\<forall>j < i. \<exists>w. toScVal h ((a # args) ! j) (hint_at hs j) = Inr w)"
      then obtain i where i: "toScVal h ((a # args) ! i) (hint_at hs i) = Inl e"
        "\<forall>j < i. \<exists>w. toScVal h ((a # args) ! j) (hint_at hs j) = Inr w" by blast
      show "e' = e"
      proof (cases i)
        case 0
        with i(1) Inl show ?thesis by simp
      next
        case (Suc k)
        with i(2) have "\<exists>w. toScVal h ((a # args) ! 0) (hint_at hs 0) = Inr w" by blast
        with Inl show ?thesis by simp
      qed
    next
      assume "e' = e"
      with Inl have "toScVal h ((a # args) ! 0) (hint_at hs 0) = Inl e \<and>
        (\<forall>j < (0::nat). \<exists>w. toScVal h ((a # args) ! j) (hint_at hs j) = Inr w)" by simp
      then show "\<exists>i < length (a # args). toScVal h ((a # args) ! i) (hint_at hs i) = Inl e \<and>
        (\<forall>j < i. \<exists>w. toScVal h ((a # args) ! j) (hint_at hs j) = Inr w)" by blast
    qed
    from l r show ?thesis by simp
  next
    case (Inr w)
    have l: "encodeArgs_map h (a # args) hs = Inl e \<longleftrightarrow> encodeArgs_map h args (tl hs) = Inl e"
      using Inr by (auto simp: hint_at_0 split: sum.splits)
    have r: "(\<exists>i < length (a # args). toScVal h ((a # args) ! i) (hint_at hs i) = Inl e \<and>
        (\<forall>j < i. \<exists>w. toScVal h ((a # args) ! j) (hint_at hs j) = Inr w)) \<longleftrightarrow>
      (\<exists>i < length args. toScVal h (args ! i) (hint_at (tl hs) i) = Inl e \<and>
        (\<forall>j < i. \<exists>w. toScVal h (args ! j) (hint_at (tl hs) j) = Inr w))"
    proof
      assume "\<exists>i < length (a # args). toScVal h ((a # args) ! i) (hint_at hs i) = Inl e \<and>
        (\<forall>j < i. \<exists>w. toScVal h ((a # args) ! j) (hint_at hs j) = Inr w)"
      then obtain i where i: "i < length (a # args)"
        "toScVal h ((a # args) ! i) (hint_at hs i) = Inl e"
        "\<forall>j < i. \<exists>w. toScVal h ((a # args) ! j) (hint_at hs j) = Inr w" by blast
      from i(2) Inr obtain k where k: "i = Suc k" by (cases i) auto
      have "\<forall>j < k. \<exists>w. toScVal h (args ! j) (hint_at (tl hs) j) = Inr w"
      proof (intro allI impI)
        fix j assume "j < k"
        then have "Suc j < i" using k by simp
        with i(3) have "\<exists>w. toScVal h ((a # args) ! Suc j) (hint_at hs (Suc j)) = Inr w" by blast
        then show "\<exists>w. toScVal h (args ! j) (hint_at (tl hs) j) = Inr w" by (simp add: hint_at_Suc)
      qed
      moreover from i(1,2) k have "k < length args" "toScVal h (args ! k) (hint_at (tl hs) k) = Inl e"
        by (simp_all add: hint_at_Suc)
      ultimately show "\<exists>i < length args. toScVal h (args ! i) (hint_at (tl hs) i) = Inl e \<and>
        (\<forall>j < i. \<exists>w. toScVal h (args ! j) (hint_at (tl hs) j) = Inr w)" by blast
    next
      assume "\<exists>i < length args. toScVal h (args ! i) (hint_at (tl hs) i) = Inl e \<and>
        (\<forall>j < i. \<exists>w. toScVal h (args ! j) (hint_at (tl hs) j) = Inr w)"
      then obtain k where k: "k < length args" "toScVal h (args ! k) (hint_at (tl hs) k) = Inl e"
        "\<forall>j < k. \<exists>w. toScVal h (args ! j) (hint_at (tl hs) j) = Inr w" by blast
      have "\<forall>j < Suc k. \<exists>w. toScVal h ((a # args) ! j) (hint_at hs j) = Inr w"
      proof (intro allI impI)
        fix j assume j: "j < Suc k"
        show "\<exists>w. toScVal h ((a # args) ! j) (hint_at hs j) = Inr w"
        proof (cases j)
          case 0
          with Inr show ?thesis by simp
        next
          case (Suc j')
          with j k(3) show ?thesis by (simp add: hint_at_Suc)
        qed
      qed
      moreover from k(1,2) have "Suc k < length (a # args)"
        "toScVal h ((a # args) ! Suc k) (hint_at hs (Suc k)) = Inl e"
        by (simp_all add: hint_at_Suc)
      ultimately show "\<exists>i < length (a # args). toScVal h ((a # args) ! i) (hint_at hs i) = Inl e \<and>
        (\<forall>j < i. \<exists>w. toScVal h ((a # args) ! j) (hint_at hs j) = Inr w)" by blast
    qed
    from l r Cons.IH [of "tl hs"] show ?thesis by simp
  qed
qed

lemma toScVal_string_Inr: "toScVal_string h s \<noteq> Inl e"
  by (simp add: toScVal_string_def split: sum.split)

lemma toScVal_untyped_no_mismatch:
  "toScVal_untyped h v \<noteq> Inl (Error ''Number of types must match number of arguments'')"
  "toScVal_items h xs \<noteq> Inl (Error ''Number of types must match number of arguments'')"
  "toScVal_entries h es \<noteq> Inl (Error ''Number of types must match number of arguments'')"
  "toScVal_props h ps \<noteq> Inl (Error ''Number of types must match number of arguments'')"
  by (induction h v and h xs and h es and h ps
      rule: toScVal_untyped_toScVal_items_toScVal_entries_toScVal_props.induct)
     (auto simp: toScVal_string_Inr split: sum.split)

lemma Object_entries_no_mismatch:
  "Object_entries v \<noteq> Inl (Error ''Number of types must match number of arguments'')"
  by (cases v) auto

lemma toTypedScVal_no_mismatch:
  "toTypedScVal h v t \<noteq> Inl (Error ''Number of types must match number of arguments'')"
  using toScVal_untyped_no_mismatch [of h] Object_entries_no_mismatch [of v]
  by (cases t; cases v)
     (auto simp: andThen_def ext_def not_a_constructor_def toScVal_string_Inr split: sum.splits)

lemma toScVal_no_mismatch:
  "toScVal h v t \<noteq> Inl (Error ''Number of types must match number of arguments'')"
  using toTypedScVal_no_mismatch toScVal_untyped_no_mismatch(1)
  by (auto simp: toScVal_def split: option.splits)

lemma encodeArgs_map_no_mismatch:
  "encodeArgs_map h args hs \<noteq> Inl (Error ''Number of types must match number of arguments'')"
  using encodeArgs_map_Inl toScVal_no_mismatch by blast

lemma hint_at_map_Some: "i < length ts \<Longrightarrow> hint_at (map Some ts) i = Some (ts ! i)"
  by (simp add: hint_at_def drop_map Cons_nth_drop_Suc [symmetric])

lemma hint_at_Nil: "hint_at [] i = None"
  by (simp add: hint_at_def)

text \<open>
  C8, amended.  \<open>encodeArgs\<close> throws the count-mismatch error exactly when a hint list is
  given and its length differs from the length of the argument list.  When the lengths are
  equal, or no hint list is given, it returns a list \<open>ws\<close> exactly when \<open>ws\<close> has one wire
  value per argument and its \<open>i\<close>-th value is the encoding of the \<open>i\<close>-th argument under
  the \<open>i\<close>-th hint (under no hint); and it throws \<open>e\<close> exactly when \<open>e\<close> is what the encoding
  of some argument throws while the encoding of every argument before it returns.
\<close>

theorem encodeArgs_precondition:
  "(encodeArgs h args (Some ts) = Inl (Error ''Number of types must match number of arguments'')
      \<longleftrightarrow> length ts \<noteq> length args) \<and>
   (length ts = length args \<longrightarrow>
      (encodeArgs h args (Some ts) = Inr ws \<longleftrightarrow>
         length ws = length args \<and>
         (\<forall>i < length args. toScVal h (args ! i) (Some (ts ! i)) = Inr (ws ! i))) \<and>
      (encodeArgs h args (Some ts) = Inl e \<longleftrightarrow>
         (\<exists>i < length args. toScVal h (args ! i) (Some (ts ! i)) = Inl e \<and>
            (\<forall>j < i. \<exists>w. toScVal h (args ! j) (Some (ts ! j)) = Inr w)))) \<and>
   (encodeArgs h args None = Inr ws \<longleftrightarrow>
      length ws = length args \<and> (\<forall>i < length args. toScVal h (args ! i) None = Inr (ws ! i))) \<and>
   (encodeArgs h args None = Inl e \<longleftrightarrow>
      (\<exists>i < length args. toScVal h (args ! i) None = Inl e \<and>
         (\<forall>j < i. \<exists>w. toScVal h (args ! j) None = Inr w)))"
proof -
  have a: "encodeArgs h args (Some ts) = Inl (Error ''Number of types must match number of arguments'')
      \<longleftrightarrow> length ts \<noteq> length args"
    using encodeArgs_map_no_mismatch by (simp add: encodeArgs_def)
  have b: "encodeArgs h args (Some ts) = Inr ws \<longleftrightarrow>
         length ws = length args \<and>
         (\<forall>i < length args. toScVal h (args ! i) (Some (ts ! i)) = Inr (ws ! i))"
    if "length ts = length args"
    using that by (simp add: encodeArgs_def encodeArgs_map_Inr hint_at_map_Some)
  have c: "encodeArgs h args (Some ts) = Inl e \<longleftrightarrow>
         (\<exists>i < length args. toScVal h (args ! i) (Some (ts ! i)) = Inl e \<and>
            (\<forall>j < i. \<exists>w. toScVal h (args ! j) (Some (ts ! j)) = Inr w))"
    if len: "length ts = length args"
  proof -
    have "encodeArgs h args (Some ts) = Inl e \<longleftrightarrow>
        (\<exists>i < length args. toScVal h (args ! i) (hint_at (map Some ts) i) = Inl e \<and>
            (\<forall>j < i. \<exists>w. toScVal h (args ! j) (hint_at (map Some ts) j) = Inr w))"
      using len by (simp add: encodeArgs_def encodeArgs_map_Inl_first)
    also have "\<dots> \<longleftrightarrow> (\<exists>i < length args. toScVal h (args ! i) (Some (ts ! i)) = Inl e \<and>
            (\<forall>j < i. \<exists>w. toScVal h (args ! j) (Some (ts ! j)) = Inr w))"
      using len by (auto simp: hint_at_map_Some)
    finally show ?thesis .
  qed
  have d: "encodeArgs h args None = Inr ws \<longleftrightarrow>
      length ws = length args \<and> (\<forall>i < length args. toScVal h (args ! i) None = Inr (ws ! i))"
    by (simp add: encodeArgs_def encodeArgs_map_Inr hint_at_Nil)
  have e: "encodeArgs h args None = Inl e \<longleftrightarrow>
      (\<exists>i < length args. toScVal h (args ! i) None = Inl e \<and>
         (\<forall>j < i. \<exists>w. toScVal h (args ! j) None = Inr w))"
    by (simp add: encodeArgs_def encodeArgs_map_Inl_first hint_at_Nil)
  from a b c d e show ?thesis by blast
qed

theorem encodeArgs_precondition_witness:
  "encodeArgs sample_host [JNumber (Finite 1), JNumber (Finite 2)] (Some [ty_u32])
     = Inl (Error ''Number of types must match number of arguments'') \<and>
   encodeArgs sample_host [JNumber (Finite 1), JNumber (Finite 2)] (Some [ty_u32, ty_u64])
     = Inr [ScvU32 (Finite 1), ScvU64 2] \<and>
   encodeArgs sample_host [JNumber (Finite 42), JString ''hello'', JBoolean True] None
     = Inr [ScvI32 (Finite 42), ScvString ''hello'', ScvBool True] \<and>
   encodeArgs sample_host [JNumber (Finite 1), JFunction ''f'', JSymbol ''s''] None
     = Inl (Error ''Unsupported type for ScVal conversion: function'') \<and>
   encodeArgs sample_host [JArray [], JString ''x''] (Some [ty_tuple, ty_map])
     = Inl (Error ''Expected object or Map for map type'')"
proof -
  have l1: "length [ty_u32] \<noteq> length [JNumber (Finite 1), JNumber (Finite 2)]" by simp
  have l2: "length [ty_u32, ty_u64] = length [JNumber (Finite 1), JNumber (Finite 2)]" by simp
  have l5: "length [ty_tuple, ty_map] = length [JArray [], JString ''x'']" by simp
  have e2: "length [ScvU32 (Finite 1), ScvU64 2] = length [JNumber (Finite 1), JNumber (Finite 2)] \<and>
      (\<forall>i < length [JNumber (Finite 1), JNumber (Finite 2)].
         toScVal sample_host ([JNumber (Finite 1), JNumber (Finite 2)] ! i) (Some ([ty_u32, ty_u64] ! i))
           = Inr ([ScvU32 (Finite 1), ScvU64 2] ! i))"
    by (auto simp: less_Suc_eq toScVal_def andThen_def ext_def sample_host_def sample_ScInt_def)
  have e3: "length [ScvI32 (Finite 42), ScvString ''hello'', ScvBool True]
        = length [JNumber (Finite 42), JString ''hello'', JBoolean True] \<and>
      (\<forall>i < length [JNumber (Finite 42), JString ''hello'', JBoolean True].
         toScVal sample_host ([JNumber (Finite 42), JString ''hello'', JBoolean True] ! i) None
           = Inr ([ScvI32 (Finite 42), ScvString ''hello'', ScvBool True] ! i))"
    by (auto simp: less_Suc_eq toScVal_def toScVal_string_def)
  have e4: "\<exists>i < length [JNumber (Finite 1), JFunction ''f'', JSymbol ''s''].
      toScVal sample_host ([JNumber (Finite 1), JFunction ''f'', JSymbol ''s''] ! i) None
        = Inl (Error ''Unsupported type for ScVal conversion: function'') \<and>
      (\<forall>j < i. \<exists>w. toScVal sample_host ([JNumber (Finite 1), JFunction ''f'', JSymbol ''s''] ! j) None
         = Inr w)"
    by (rule exI [of _ 1]) (simp add: toScVal_def)
  have e5: "\<exists>i < length [JArray [], JString ''x''].
      toScVal sample_host ([JArray [], JString ''x''] ! i) (Some ([ty_tuple, ty_map] ! i))
        = Inl (Error ''Expected object or Map for map type'') \<and>
      (\<forall>j < i. \<exists>w. toScVal sample_host ([JArray [], JString ''x''] ! j) (Some ([ty_tuple, ty_map] ! j))
         = Inr w)"
    by (rule exI [of _ 1]) (simp add: toScVal_def andThen_def)
  have w1: "encodeArgs sample_host [JNumber (Finite 1), JNumber (Finite 2)] (Some [ty_u32])
     = Inl (Error ''Number of types must match number of arguments'')"
    using l1 encodeArgs_precondition [where h = sample_host
        and args = "[JNumber (Finite 1), JNumber (Finite 2)]" and ts = "[ty_u32]"
        and ws = "[]" and e = "Error []"]
    by (elim conjE) (rule iffD2)
  have w2: "encodeArgs sample_host [JNumber (Finite 1), JNumber (Finite 2)] (Some [ty_u32, ty_u64])
     = Inr [ScvU32 (Finite 1), ScvU64 2]"
    using l2 e2 encodeArgs_precondition [where h = sample_host
        and args = "[JNumber (Finite 1), JNumber (Finite 2)]" and ts = "[ty_u32, ty_u64]"
        and ws = "[ScvU32 (Finite 1), ScvU64 2]" and e = "Error []"]
    by (elim conjE) (erule impE, assumption, elim conjE, erule iffD2, rule conjI, assumption+)
  have w3: "encodeArgs sample_host [JNumber (Finite 42), JString ''hello'', JBoolean True] None
     = Inr [ScvI32 (Finite 42), ScvString ''hello'', ScvBool True]"
    using e3 encodeArgs_precondition [where h = sample_host
        and args = "[JNumber (Finite 42), JString ''hello'', JBoolean True]" and ts = "[]"
        and ws = "[ScvI32 (Finite 42), ScvString ''hello'', ScvBool True]" and e = "Error []"]
    by (elim conjE) (rule iffD2, assumption, rule conjI, assumption+)
  have w4: "encodeArgs sample_host [JNumber (Finite 1), JFunction ''f'', JSymbol ''s''] None
     = Inl (Error ''Unsupported type for ScVal conversion: function'')"
    using e4 encodeArgs_precondition [where h = sample_host
        and args = "[JNumber (Finite 1), JFunction ''f'', JSymbol ''s'']" and ts = "[]"
        and ws = "[]" and e = "Error ''Unsupported type for ScVal conversion: function''"]
    by (elim conjE) (rule iffD2, assumption+)
  have w5: "encodeArgs sample_host [JArray [], JString ''x''] (Some [ty_tuple, ty_map])
     = Inl (Error ''Expected object or Map for map type'')"
    using l5 e5 encodeArgs_precondition [where h = sample_host
        and args = "[JArray [], JString ''x'']" and ts = "[ty_tuple, ty_map]"
        and ws = "[]" and e = "Error ''Expected object or Map for map type''"]
    by (elim conjE) (erule impE, assumption, elim conjE, rule iffD2, assumption+)
  from w1 w2 w3 w4 w5 show ?thesis by (intro conjI)
qed

text \<open>
  C8 as stated fails on argument lists with an argument whose own encoding throws.  With
  one hint for one argument, the hint \<open>vec\<close> on a number makes \<open>encodeArgs\<close> throw, and so
  does, with no hint list, an argument that is a symbol: no list of wire values is
  returned although the lengths agree.
\<close>

theorem encodeArgs_precondition_counterexample:
  "length [ty_vec] = length [JNumber (Finite 5)] \<and>
   encodeArgs sample_host [JNumber (Finite 5)] (Some [ty_vec])
     = Inl (Error ''Expected array for vec type'') \<and>
   encodeArgs sample_host [JSymbol ''s''] None
     = Inl (Error ''Unsupported type for ScVal conversion: symbol'')"
  by (simp add: encodeArgs_def toScVal_def)

section \<open>Properties of the invocation orchestrator\<close>

text \<open>
  With \<open>simulateOnly\<close> set, the pipeline never reaches the submit and poll primitives, and
  a result it returns has the empty transaction hash and ledger 0.
\<close>

lemma invokeContract_simulateOnly_calls:
  "inv_simulateOnly p \<Longrightarrow>
   set (map call_name (snd (invokeContract h s p))) \<subseteq> {''getAccount'', ''simulateTransaction''}"
  by (auto simp: invokeContract_def Let_def split: sum.splits)

lemma invokeContract_simulateOnly_result:
  "inv_simulateOnly p \<Longrightarrow> fst (invokeContract h s p) = Inr r \<Longrightarrow>
   transactionHash r = [] \<and> ledger r = 0"
  by (auto simp: invokeContract_def Let_def invocation_failed_def convertSimulationToResult_def
      split: sum.splits if_splits)

text \<open>
  But it returns no result when the simulation carries one: \<open>convertSimulationToResult\<close>
  hands \<open>simulation.result\<close> to \<open>parseEvents\<close>, whose call \<open>meta.v3()\<close> fails on it, and the
  \<open>catch\<close> of \<open>invokeContract\<close> rethrows.
\<close>

lemma invokeContract_simulateOnly_with_result:
  assumes "inv_simulateOnly p"
    and "getAccount s (publicKey (inv_caller p)) = Inr account"
    and "Contract_new s (inv_contractId p) = Inr contract"
    and "encodeArgs h (inv_args p) None = Inr scArgs"
    and "simulateTransaction s
           \<lparr> tx_source = account, tx_fee = BASE_FEE,
             tx_networkPassphrase = inv_networkPassphrase p,
             tx_contract = contract, tx_method = inv_method p,
             tx_args = scArgs, tx_timeout = 30, tx_signatures = [] \<rparr> = Inr simulation"
    and "isSimulationSuccess simulation"
    and "sim_result simulation = Some v"
  shows "fst (invokeContract h s p) =
           Inl (Error ''Contract invocation failed: meta.v3 is not a function'')"
  using assms
  by (simp add: invokeContract_def Let_def invocation_failed_def convertSimulationToResult_def
      parseEvents_def error_message_def)

text \<open>
  C3.  The claim is that a request with \<open>simulateOnly\<close> set whose simulation succeeds
  returns a result with the empty transaction hash and ledger 0 and never calls
  \<open>sendTransaction\<close> or \<open>getTransaction\<close>.  On the request and the server of the
  repository's own test the code calls \<open>getAccount\<close> and \<open>simulateTransaction\<close> only, as
  claimed, but it does not return: it throws
  \<open>Contract invocation failed: meta.v3 is not a function\<close>.
\<close>

theorem invokeContract_simulateOnly_failing_input:
  "invokeContract sample_host sample_server sample_params =
     (Inl (Error ''Contract invocation failed: meta.v3 is not a function''),
      [Call_getAccount ''GDQZ43L2QQ3B5OUP4QKA52L2AKYYG5ZC5LEJ2TFKX2LFDWLXRWERFW53'',
       Call_simulateTransaction
         \<lparr> tx_source = \<lparr> accountId = ''GDQZ43L2QQ3B5OUP4QKA52L2AKYYG5ZC5LEJ2TFKX2LFDWLXRWERFW53'',
                          sequenceNumber = ''1'' \<rparr>,
           tx_fee = ''100'',
           tx_networkPassphrase = ''Test SDF Network ; September 2015'',
           tx_contract = ''mock-contract-id'', tx_method = ''testMethod'',
           tx_args = [], tx_timeout = 30, tx_signatures = [] \<rparr>])"
  by (simp add: invokeContract_def Let_def invocation_failed_def convertSimulationToResult_def
      parseEvents_def error_message_def sample_server_def sample_params_def encodeArgs_def BASE_FEE_def)

section \<open>Properties of the event engine\<close>

lemma processEvents_all_return:
  "\<forall>e \<in> set evs. onEvent sub (convertRpcEventToDetail e) = None \<Longrightarrow>
   snd (processEvents sub evs) = None"
  by (induction evs) (auto simp: Let_def split: prod.splits)

lemma processEvents_no_query: "queries (fst (processEvents sub evs)) = []"
  by (induction evs) (auto simp: Let_def split: prod.splits option.splits)

lemma processEvents_no_query_pair: "processEvents sub evs = (fx, r) \<Longrightarrow> queries fx = []"
  using processEvents_no_query [of sub evs] by simp

lemma queries_append: "queries (xs @ ys) = queries xs @ queries ys"
  by (induction xs rule: queries.induct) auto

lemma pollForEvents_idle:
  "map_of (subscriptions m) subscriptionId = Some sub \<Longrightarrow> getLatestLedger server = Inr cur \<Longrightarrow>
   cur \<le> lastLedger m \<Longrightarrow> pollForEvents m server subscriptionId = (m, [Call_getLatestLedger])"
  by (simp add: pollForEvents_def)

lemma pollForEvents_one_query:
  "map_of (subscriptions m) subscriptionId = Some sub \<Longrightarrow> getLatestLedger server = Inr cur \<Longrightarrow>
   lastLedger m < cur \<Longrightarrow>
   queries (snd (pollForEvents m server subscriptionId)) = [poll_request m sub cur]"
  by (auto simp: pollForEvents_def Let_def queries_append processEvents_no_query_pair
      split: sum.splits prod.splits option.splits)

lemma pollForEvents_advance:
  "map_of (subscriptions m) subscriptionId = Some sub \<Longrightarrow> getLatestLedger server = Inr cur \<Longrightarrow>
   lastLedger m < cur \<Longrightarrow> getEvents server (poll_request m sub cur) = Inr evs \<Longrightarrow>
   \<forall>e \<in> set evs. onEvent sub (convertRpcEventToDetail e) = None \<Longrightarrow>
   fst (pollForEvents m server subscriptionId) = m \<lparr> lastLedger := cur \<rparr>"
  using processEvents_all_return [of evs sub]
  by (auto simp: pollForEvents_def Let_def split: prod.splits option.splits)

lemma pollForEvents_state:
  "fst (pollForEvents m server subscriptionId) = m \<or>
   (\<exists>cur. getLatestLedger server = Inr cur \<and> lastLedger m < cur \<and>
      fst (pollForEvents m server subscriptionId) = m \<lparr> lastLedger := cur \<rparr>)"
  by (auto simp: pollForEvents_def Let_def split: sum.splits prod.splits option.splits)

lemma pollForEvents_monotone:
  "lastLedger m \<le> lastLedger (fst (pollForEvents m server subscriptionId))"
  using pollForEvents_state [of m server subscriptionId] by auto

text \<open>
  Whatever the server answers and whatever the callback does, the ranges that a series of
  polls of one subscription finishes with follow one another without gap or overlap,
  starting right above the initial cursor.
\<close>

lemma scans_contiguous: "contiguous (lastLedger m) (scans m subscriptionId servers)"
proof (induction servers arbitrary: m)
  case Nil
  then show ?case by simp
next
  case (Cons server servers)
  from pollForEvents_state [of m server subscriptionId]
  show ?case
  proof
    assume "fst (pollForEvents m server subscriptionId) = m"
    then show ?thesis using Cons.IH [of m] by (simp add: Let_def)
  next
    assume "\<exists>cur. getLatestLedger server = Inr cur \<and> lastLedger m < cur \<and>
      fst (pollForEvents m server subscriptionId) = m \<lparr> lastLedger := cur \<rparr>"
    then obtain cur where c: "lastLedger m < cur"
      "fst (pollForEvents m server subscriptionId) = m \<lparr> lastLedger := cur \<rparr>" by blast
    then show ?thesis using Cons.IH [of "m \<lparr> lastLedger := cur \<rparr>"] by (simp add: Let_def)
  qed
qed

lemma processEvents_some_throw:
  "\<exists>e \<in> set evs. onEvent sub (convertRpcEventToDetail e) \<noteq> None \<Longrightarrow>
   snd (processEvents sub evs) \<noteq> None"
proof (induction evs)
  case Nil
  then show ?case by simp
next
  case (Cons a evs)
  show ?case
  proof (cases "onEvent sub (convertRpcEventToDetail a)")
    case (Some y)
    then show ?thesis by (simp add: Let_def)
  next
    case None
    with Cons.prems have "\<exists>e \<in> set evs. onEvent sub (convertRpcEventToDetail e) \<noteq> None" by auto
    from Cons.IH [OF this] None show ?thesis
      by (cases "processEvents sub evs") (simp add: Let_def)
  qed
qed

lemma pollForEvents_query_failed:
  "map_of (subscriptions m) subscriptionId = Some sub \<Longrightarrow> getLatestLedger server = Inr cur \<Longrightarrow>
   lastLedger m < cur \<Longrightarrow> getEvents server (poll_request m sub cur) = Inl err \<Longrightarrow>
   fst (pollForEvents m server subscriptionId) = m"
  by (simp add: pollForEvents_def Let_def)

lemma pollForEvents_callback_throws:
  "map_of (subscriptions m) subscriptionId = Some sub \<Longrightarrow> getLatestLedger server = Inr cur \<Longrightarrow>
   lastLedger m < cur \<Longrightarrow> getEvents server (poll_request m sub cur) = Inr evs \<Longrightarrow>
   \<exists>e \<in> set evs. onEvent sub (convertRpcEventToDetail e) \<noteq> None \<Longrightarrow>
   fst (pollForEvents m server subscriptionId) = m"
  using processEvents_some_throw [of evs sub]
  by (auto simp: pollForEvents_def Let_def split: prod.splits option.splits)

text \<open>
  C5, amended.  For a registered subscription and a poll that observes the latest ledger
  \<open>cur\<close>: if \<open>cur\<close> is not above the cursor, the poll issues no event query and changes
  nothing; if \<open>cur\<close> is above the cursor, the poll issues exactly one event query, from
  cursor + 1 to \<open>cur\<close>; if that query succeeds and the callback returns on every event
  delivered, which includes the case of no event, the cursor becomes \<open>cur\<close>; if the query
  fails, or the callback throws on an event delivered, the engine is left as it was, with
  its cursor where it was.  In every case the engine is left unchanged or with its cursor
  moved up to \<open>cur\<close>.  With the cursor at 100, a poll observing 100 therefore issues no
  query, and a poll observing 150 queries from 101 to 150 once.
\<close>

theorem pollForEvents_cursor:
  assumes sub: "map_of (subscriptions m) subscriptionId = Some sub"
    and cur: "getLatestLedger server = Inr cur"
  shows "(cur \<le> lastLedger m \<longrightarrow>
            pollForEvents m server subscriptionId = (m, [Call_getLatestLedger])) \<and>
         (lastLedger m < cur \<longrightarrow>
            queries (snd (pollForEvents m server subscriptionId)) = [poll_request m sub cur] \<and>
            startLedger (poll_request m sub cur) = lastLedger m + 1 \<and>
            endLedger (poll_request m sub cur) = cur) \<and>
         (lastLedger m < cur \<and> getEvents server (poll_request m sub cur) = Inr evs \<and>
          (\<forall>e \<in> set evs. onEvent sub (convertRpcEventToDetail e) = None) \<longrightarrow>
            fst (pollForEvents m server subscriptionId) = m \<lparr> lastLedger := cur \<rparr>) \<and>
         (lastLedger m < cur \<and> getEvents server (poll_request m sub cur) = Inl err \<longrightarrow>
            fst (pollForEvents m server subscriptionId) = m) \<and>
         (lastLedger m < cur \<and> getEvents server (poll_request m sub cur) = Inr evs \<and>
          (\<exists>e \<in> set evs. onEvent sub (convertRpcEventToDetail e) \<noteq> None) \<longrightarrow>
            fst (pollForEvents m server subscriptionId) = m) \<and>
         (fst (pollForEvents m server subscriptionId) = m \<or>
          fst (pollForEvents m server subscriptionId) = m \<lparr> lastLedger := cur \<rparr> \<and> lastLedger m < cur)"
proof -
  have a: "cur \<le> lastLedger m \<longrightarrow>
      pollForEvents m server subscriptionId = (m, [Call_getLatestLedger])"
    using pollForEvents_idle [OF sub cur] by simp
  have b: "lastLedger m < cur \<longrightarrow>
      queries (snd (pollForEvents m server subscriptionId)) = [poll_request m sub cur] \<and>
      startLedger (poll_request m sub cur) = lastLedger m + 1 \<and>
      endLedger (poll_request m sub cur) = cur"
    using pollForEvents_one_query [OF sub cur] by (simp add: poll_request_def)
  have c: "lastLedger m < cur \<and> getEvents server (poll_request m sub cur) = Inr evs \<and>
      (\<forall>e \<in> set evs. onEvent sub (convertRpcEventToDetail e) = None) \<longrightarrow>
      fst (pollForEvents m server subscriptionId) = m \<lparr> lastLedger := cur \<rparr>"
    using pollForEvents_advance [OF sub cur, of evs] by blast
  have d: "lastLedger m < cur \<and> getEvents server (poll_request m sub cur) = Inl err \<longrightarrow>
      fst (pollForEvents m server subscriptionId) = m"
    using pollForEvents_query_failed [OF sub cur, of err] by blast
  have e: "lastLedger m < cur \<and> getEvents server (poll_request m sub cur) = Inr evs \<and>
      (\<exists>e \<in> set evs. onEvent sub (convertRpcEventToDetail e) \<noteq> None) \<longrightarrow>
      fst (pollForEvents m server subscriptionId) = m"
    using pollForEvents_callback_throws [OF sub cur, of evs] by blast
  have f: "fst (pollForEvents m server subscriptionId) = m \<or>
      fst (pollForEvents m server subscriptionId) = m \<lparr> lastLedger := cur \<rparr> \<and> lastLedger m < cur"
    using pollForEvents_state [of m server subscriptionId] cur by auto
  from a b c d e f show ?thesis by blast
qed

theorem pollForEvents_cursor_witness:
  "fst (pollForEvents (sample_monitor \<lparr> lastLedger := 90 \<rparr>) (ledger_at 100 []) ''A'')
     = sample_monitor \<and>
   map (\<lambda>r. (startLedger r, endLedger r))
     (queries (snd (pollForEvents (sample_monitor \<lparr> lastLedger := 90 \<rparr>) (ledger_at 100 []) ''A'')))
     = [(91, 100)] \<and>
   pollForEvents sample_monitor (ledger_at 100 []) ''A'' = (sample_monitor, [Call_getLatestLedger]) \<and>
   map (\<lambda>r. (startLedger r, endLedger r))
     (queries (snd (pollForEvents sample_monitor (ledger_at 150 []) ''A''))) = [(101, 150)] \<and>
   fst (pollForEvents sample_monitor (ledger_at 150 []) ''A'') = sample_monitor \<lparr> lastLedger := 150 \<rparr> \<and>
   fst (pollForEvents sample_monitor (events_down 150) ''A'') = sample_monitor \<and>
   fst (pollForEvents sample_monitor (ledger_at 150 [sample_event]) ''B'') = sample_monitor"
proof -
  let ?sub = "(sample_subscription ''contract-1'' False) \<lparr> sub_id := ''A'' \<rparr>"
  let ?subB = "(sample_subscription ''contract-2'' True) \<lparr> sub_id := ''B'' \<rparr>"
  let ?m0 = "sample_monitor \<lparr> lastLedger := 90 \<rparr>"
  have s0: "map_of (subscriptions ?m0) ''A'' = Some ?sub"
    and s1: "map_of (subscriptions sample_monitor) ''A'' = Some ?sub"
    and s2: "map_of (subscriptions sample_monitor) ''B'' = Some ?subB"
    by (simp_all add: sample_monitor_def)
  have c100: "getLatestLedger (ledger_at 100 []) = Inr 100"
    and c150: "getLatestLedger (ledger_at 150 []) = Inr 150"
    and d150: "getLatestLedger (events_down 150) = Inr 150"
    and e150: "getLatestLedger (ledger_at 150 [sample_event]) = Inr 150"
    by (simp_all add: ledger_at_def events_down_def)
  have l: "lastLedger ?m0 = 90" "lastLedger sample_monitor = 100"
    "?m0 \<lparr> lastLedger := 100 \<rparr> = sample_monitor"
    by (simp_all add: sample_monitor_def)
  have q: "getEvents (ledger_at 100 []) (poll_request ?m0 ?sub 100) = Inr []"
    "getEvents (ledger_at 150 []) (poll_request sample_monitor ?sub 150) = Inr []"
    "getEvents (events_down 150) (poll_request sample_monitor ?sub 150) = Inl ''Query failed''"
    "getEvents (ledger_at 150 [sample_event]) (poll_request sample_monitor ?subB 150)
       = Inr [sample_event]"
    by (simp_all add: ledger_at_def events_down_def)
  have t: "\<exists>e \<in> set [sample_event]. onEvent ?subB (convertRpcEventToDetail e) \<noteq> None"
    by (simp add: sample_subscription_def)
  have w1: "fst (pollForEvents ?m0 (ledger_at 100 []) ''A'') = sample_monitor \<and>
      map (\<lambda>r. (startLedger r, endLedger r))
        (queries (snd (pollForEvents ?m0 (ledger_at 100 []) ''A''))) = [(91, 100)]"
    using pollForEvents_cursor [OF s0 c100, of "[]" "[]"] l q by simp
  have w2: "pollForEvents sample_monitor (ledger_at 100 []) ''A'' = (sample_monitor, [Call_getLatestLedger])"
    using pollForEvents_cursor [OF s1 c100, of "[]" "[]"] l by simp
  have w3: "map (\<lambda>r. (startLedger r, endLedger r))
        (queries (snd (pollForEvents sample_monitor (ledger_at 150 []) ''A''))) = [(101, 150)] \<and>
      fst (pollForEvents sample_monitor (ledger_at 150 []) ''A'') = sample_monitor \<lparr> lastLedger := 150 \<rparr>"
    using pollForEvents_cursor [OF s1 c150, of "[]" "[]"] l q by simp
  have w4: "fst (pollForEvents sample_monitor (events_down 150) ''A'') = sample_monitor"
    using pollForEvents_cursor [OF s1 d150, of "[]" "''Query failed''"] l q by simp
  have w5: "fst (pollForEvents sample_monitor (ledger_at 150 [sample_event]) ''B'') = sample_monitor"
    using pollForEvents_cursor [OF s2 e150, of "[sample_event]" "[]"] l q t by simp
  from w1 w2 w3 w4 w5 show ?thesis by simp
qed

text \<open>
  C5 as stated fails on a poll whose query succeeds and whose callback throws: the cursor
  stays at 100 although ledger 150 was observed and the query from 101 to 150 returned,
  and the next poll scans that range again.
\<close>

theorem pollForEvents_cursor_counterexample:
  "getEvents (ledger_at 150 [sample_event])
     (poll_request sample_monitor ((sample_subscription ''contract-2'' True) \<lparr> sub_id := ''B'' \<rparr>) 150)
     = Inr [sample_event] \<and>
   lastLedger (fst (pollForEvents sample_monitor (ledger_at 150 [sample_event]) ''B'')) = 100 \<and>
   map (\<lambda>r. (startLedger r, endLedger r))
     (queries (snd (pollForEvents sample_monitor (ledger_at 150 [sample_event]) ''B'')))
     = [(101, 150)] \<and>
   map (\<lambda>r. (startLedger r, endLedger r))
     (queries (snd (pollForEvents
        (fst (pollForEvents sample_monitor (ledger_at 150 [sample_event]) ''B''))
        (ledger_at 150 [sample_event]) ''B'')))
     = [(101, 150)]"
  by (simp add: pollForEvents_def Let_def sample_monitor_def sample_subscription_def ledger_at_def
      poll_request_def sample_event_def convertRpcEventToDetail_def)

lemma map_of_registry_set: "map_of (registry_set es k v) k = Some v"
  by (induction es) auto

lemma map_of_registry_set_other: "k' \<noteq> k \<Longrightarrow> map_of (registry_set es k v) k' = map_of es k'"
  by (induction es) auto

lemma registry_set_mem: "(k, v) \<in> set (registry_set es k v)"
  by (induction es) auto

lemma subscribeToEvents_success:
  assumes "getLatestLedger server = Inr sequence"
  shows "fst (subscribeToEvents m server timestamp random subscription)
           = Inr (generateSubscriptionId (sub_contractId subscription) timestamp random)"
    and "lastLedger (fst (snd (subscribeToEvents m server timestamp random subscription))) = sequence"
    and "generateSubscriptionId (sub_contractId subscription) timestamp random
           \<in> set (pollingIntervals (fst (snd (subscribeToEvents m server timestamp random subscription))))"
  using assms
  by (auto simp: subscribeToEvents_def Let_def startPolling_def map_of_registry_set split: prod.splits)

text \<open>
  C9.  The engine has one cursor, \<open>lastLedger\<close>, for all its subscriptions.  A subscribe
  whose ledger fetch succeeds sets it to the fetched sequence, whatever it was.  When the
  poll of one subscription \<open>a\<close> succeeds on a newer ledger \<open>cur\<close>, the cursor is \<open>cur\<close> for
  every subscription: a poll of another subscription \<open>b\<close> that then observes \<open>cur\<close> issues
  no query, so \<open>b\<close> has no cursor of its own.
\<close>

theorem shared_cursor:
  "(getLatestLedger server = Inr sequence \<longrightarrow>
      lastLedger (fst (snd (subscribeToEvents m server timestamp random subscription))) = sequence) \<and>
   (map_of (subscriptions m) a = Some sa \<and> map_of (subscriptions m) b = Some sb \<and>
    getLatestLedger server = Inr cur \<and> lastLedger m < cur \<and>
    getEvents server (poll_request m sa cur) = Inr evs \<and>
    (\<forall>e \<in> set evs. onEvent sa (convertRpcEventToDetail e) = None) \<longrightarrow>
      fst (pollForEvents m server a) = m \<lparr> lastLedger := cur \<rparr> \<and>
      pollForEvents (fst (pollForEvents m server a)) server b
        = (m \<lparr> lastLedger := cur \<rparr>, [Call_getLatestLedger]))"
proof -
  have one: "getLatestLedger server = Inr sequence \<longrightarrow>
      lastLedger (fst (snd (subscribeToEvents m server timestamp random subscription))) = sequence"
    using subscribeToEvents_success(2) by blast
  have two: "fst (pollForEvents m server a) = m \<lparr> lastLedger := cur \<rparr> \<and>
      pollForEvents (fst (pollForEvents m server a)) server b
        = (m \<lparr> lastLedger := cur \<rparr>, [Call_getLatestLedger])"
    if h: "map_of (subscriptions m) a = Some sa" "map_of (subscriptions m) b = Some sb"
      "getLatestLedger server = Inr cur" "lastLedger m < cur"
      "getEvents server (poll_request m sa cur) = Inr evs"
      "\<forall>e \<in> set evs. onEvent sa (convertRpcEventToDetail e) = None"
  proof -
    have adv: "fst (pollForEvents m server a) = m \<lparr> lastLedger := cur \<rparr>"
      using pollForEvents_advance [OF h(1) h(3) h(4) h(5) h(6)] .
    have "map_of (subscriptions (m \<lparr> lastLedger := cur \<rparr>)) b = Some sb" using h(2) by simp
    moreover have "cur \<le> lastLedger (m \<lparr> lastLedger := cur \<rparr>)" by simp
    ultimately have "pollForEvents (m \<lparr> lastLedger := cur \<rparr>) server b
        = (m \<lparr> lastLedger := cur \<rparr>, [Call_getLatestLedger])"
      using pollForEvents_idle h(3) by blast
    with adv show ?thesis by simp
  qed
  from one two show ?thesis by blast
qed

theorem shared_cursor_witness:
  "lastLedger (fst (snd (subscribeToEvents sample_monitor (ledger_at 40 []) 1700000000000 ''k3j9x2m1q''
       (sample_subscription ''contract-3'' False)))) = 40 \<and>
   fst (pollForEvents sample_monitor (ledger_at 150 [sample_event]) ''A'')
     = sample_monitor \<lparr> lastLedger := 150 \<rparr> \<and>
   pollForEvents (fst (pollForEvents sample_monitor (ledger_at 150 [sample_event]) ''A''))
       (ledger_at 150 [sample_event]) ''B''
     = (sample_monitor \<lparr> lastLedger := 150 \<rparr>, [Call_getLatestLedger])"
proof -
  let ?sa = "(sample_subscription ''contract-1'' False) \<lparr> sub_id := ''A'' \<rparr>"
  let ?sb = "(sample_subscription ''contract-2'' True) \<lparr> sub_id := ''B'' \<rparr>"
  have a: "getLatestLedger (ledger_at 40 []) = Inr 40" by (simp add: ledger_at_def)
  have b: "map_of (subscriptions sample_monitor) ''A'' = Some ?sa \<and>
      map_of (subscriptions sample_monitor) ''B'' = Some ?sb \<and>
      getLatestLedger (ledger_at 150 [sample_event]) = Inr 150 \<and> lastLedger sample_monitor < 150 \<and>
      getEvents (ledger_at 150 [sample_event]) (poll_request sample_monitor ?sa 150) = Inr [sample_event] \<and>
      (\<forall>e \<in> set [sample_event]. onEvent ?sa (convertRpcEventToDetail e) = None)"
    by (simp add: sample_monitor_def ledger_at_def sample_subscription_def)
  show ?thesis
    using a b
      shared_cursor [where server = "ledger_at 40 []" and sequence = 40 and m = sample_monitor
        and timestamp = 1700000000000 and random = "''k3j9x2m1q''"
        and subscription = "sample_subscription ''contract-3'' False"]
      shared_cursor [where server = "ledger_at 150 [sample_event]" and m = sample_monitor
        and a = "''A''" and b = "''B''" and sa = ?sa and sb = ?sb and cur = 150
        and evs = "[sample_event]"]
    by blast
qed

text \<open>
  C10.  If the ledger fetch of \<open>subscribeToEvents\<close> fails, the error goes to \<open>onError\<close>
  when there is one and is rethrown to the caller; the entry stored before the fetch is
  still in the registry and \<open>getSubscriptions\<close> lists it, while no timer has been started
  and the cursor is untouched.
\<close>

theorem subscribe_failure_keeps_entry:
  assumes "getLatestLedger server = Inl e"
  shows "fst (subscribeToEvents m server timestamp random subscription) = Inl (HostError e) \<and>
    (onError subscription \<longrightarrow>
       snd (snd (subscribeToEvents m server timestamp random subscription))
         = [Call_getLatestLedger, Call_onError e]) \<and>
    (\<not> onError subscription \<longrightarrow>
       snd (snd (subscribeToEvents m server timestamp random subscription)) = [Call_getLatestLedger]) \<and>
    subscription \<lparr> sub_id := generateSubscriptionId (sub_contractId subscription) timestamp random \<rparr>
      \<in> set (getSubscriptions (fst (snd (subscribeToEvents m server timestamp random subscription)))) \<and>
    map_of (subscriptions (fst (snd (subscribeToEvents m server timestamp random subscription))))
        (generateSubscriptionId (sub_contractId subscription) timestamp random)
      = Some (subscription \<lparr> sub_id := generateSubscriptionId (sub_contractId subscription) timestamp random \<rparr>) \<and>
    pollingIntervals (fst (snd (subscribeToEvents m server timestamp random subscription)))
      = pollingIntervals m \<and>
    lastLedger (fst (snd (subscribeToEvents m server timestamp random subscription))) = lastLedger m"
proof -
  let ?id = "generateSubscriptionId (sub_contractId subscription) timestamp random"
  have "(?id, subscription \<lparr> sub_id := ?id \<rparr>)
      \<in> set (registry_set (subscriptions m) ?id (subscription \<lparr> sub_id := ?id \<rparr>))"
    by (rule registry_set_mem)
  then have "subscription \<lparr> sub_id := ?id \<rparr>
      \<in> snd ` set (registry_set (subscriptions m) ?id (subscription \<lparr> sub_id := ?id \<rparr>))"
    by force
  then show ?thesis
    using assms
    by (simp add: subscribeToEvents_def Let_def getSubscriptions_def map_of_registry_set)
qed

theorem subscribe_failure_keeps_entry_witness:
  "fst (subscribeToEvents new_ContractEventMonitor ledger_down 1700000000000 ''k3j9x2m1q''
          (sample_subscription ''mock-contract-id'' False))
     = Inl (HostError ''Network error'') \<and>
   snd (snd (subscribeToEvents new_ContractEventMonitor ledger_down 1700000000000 ''k3j9x2m1q''
          (sample_subscription ''mock-contract-id'' False)))
     = [Call_getLatestLedger, Call_onError ''Network error''] \<and>
   length (getSubscriptions (fst (snd (subscribeToEvents new_ContractEventMonitor ledger_down
          1700000000000 ''k3j9x2m1q'' (sample_subscription ''mock-contract-id'' False))))) = 1 \<and>
   pollingIntervals (fst (snd (subscribeToEvents new_ContractEventMonitor ledger_down
          1700000000000 ''k3j9x2m1q'' (sample_subscription ''mock-contract-id'' False)))) = []"
proof -
  have a: "getLatestLedger ledger_down = Inl ''Network error''" by (simp add: ledger_down_def)
  have b: "onError (sample_subscription ''mock-contract-id'' False)"
    by (simp add: sample_subscription_def)
  have c: "length (getSubscriptions (fst (snd (subscribeToEvents new_ContractEventMonitor ledger_down
          1700000000000 ''k3j9x2m1q'' (sample_subscription ''mock-contract-id'' False))))) = 1"
    by (simp add: subscribeToEvents_def Let_def getSubscriptions_def new_ContractEventMonitor_def a)
  show ?thesis
    using subscribe_failure_keeps_entry [OF a, of new_ContractEventMonitor 1700000000000
        "''k3j9x2m1q''" "sample_subscription ''mock-contract-id'' False"] b c
    by (simp add: new_ContractEventMonitor_def)
qed

end
